theory Spec2Isabelle
  imports Complex_Main
begin

section \<open>JavaScript values as the server sees them\<close>

text \<open>
  The server (src/index.ts) receives JSON from two sides: the tool arguments sent by the
  host and the body returned by the Open-Meteo endpoints (typed \<open>any\<close> in the source).
  Both are modelled by one datatype of parsed JSON values. The JavaScript value
  \<open>undefined\<close>, which JSON cannot carry but every read of an absent property yields,
  is \<open>None\<close> of \<open>json option\<close>.

  Strings are sequences of UTF-16 code units in JavaScript. A HOL \<open>char\<close> stands for one
  code unit below 256, so the model covers the strings of the Latin-1 range; on those,
  \<open>length\<close>, indexing and iteration are the ones of HOL lists.

  A finite number is represented by the decimal \<open>m * 10 ^ e\<close> that
  \<open>Number.prototype.toString\<close> prints for it. Infinities and NaN do not occur in the
  payloads of the model; NaN as the result of a conversion is \<open>None\<close> of
  \<open>number option\<close>.
\<close>

datatype number = Dec int int

datatype json =
    JNull
  | JBool bool
  | JNum number
  | JStr string
  | JArr "json list"
  | JObj "(string \<times> json) list"

definition num_val :: "number \<Rightarrow> rat" where
  "num_val x = (case x of Dec m e \<Rightarrow>
     if 0 \<le> e then of_int m * 10 ^ nat e else of_int m / 10 ^ nat (- e))"

definition natNumber :: "nat \<Rightarrow> number" where
  "natNumber n = Dec (int n) 0"

text \<open>Every exception the server can raise.\<close>

datatype zod_code =
    invalid_type string string  \<comment> \<open>expected, received\<close>
  | too_small int               \<comment> \<open>inclusive minimum\<close>
  | too_big int                 \<comment> \<open>inclusive maximum\<close>

type_synonym zod_issue = "string list \<times> zod_code"  \<comment> \<open>path, code\<close>

datatype error =
    Error string                     \<comment> \<open>\<open>new Error(message)\<close>\<close>
  | InvalidArguments "zod_issue list"
      \<comment> \<open>the \<open>Error\<close> with message \<open>Invalid arguments: ...\<close> that the call handler
          builds from the issues of a \<open>ZodError\<close>\<close>
  | TypeError                        \<comment> \<open>raised by the JavaScript runtime\<close>
  | SyntaxError                      \<comment> \<open>\<open>response.json()\<close> on a body that is not JSON\<close>
  | FetchError                       \<comment> \<open>\<open>fetch\<close> rejected: no response at all\<close>

definition bindE :: "'e + 'a \<Rightarrow> ('a \<Rightarrow> 'e + 'b) \<Rightarrow> 'e + 'b" where
  "bindE m f = (case m of Inl e \<Rightarrow> Inl e | Inr x \<Rightarrow> f x)"

subsection \<open>Number to string\<close>

definition digit_char :: "nat \<Rightarrow> char" where
  "digit_char d = ''0123456789'' ! d"

fun digitsOf :: "nat \<Rightarrow> string" where
  "digitsOf n = (if n < 10 then [digit_char n] else digitsOf (n div 10) @ [digit_char (n mod 10)])"

fun stripZeros :: "nat \<Rightarrow> int \<Rightarrow> nat \<times> int" where
  "stripZeros s e = (if s \<noteq> 0 \<and> s mod 10 = 0 then stripZeros (s div 10) (e + 1) else (s, e))"

declare digitsOf.simps [simp del] stripZeros.simps [simp del]

text \<open>
  \<open>Number::toString\<close> of ECMA-262 in radix 10: with \<open>s\<close> the digits without trailing
  zeros, \<open>k\<close> their count and \<open>n\<close> the position of the decimal point, plain notation
  for \<open>-5 \<le> n \<le> 21\<close> and exponential notation otherwise.
\<close>

definition Number_toString :: "number \<Rightarrow> string" where
  "Number_toString x = (case x of Dec m e \<Rightarrow>
     if m = 0 then ''0'' else
     (case stripZeros (nat \<bar>m\<bar>) e of (s, e') \<Rightarrow>
       let ds = digitsOf s;
           k = int (length ds);
           n = k + e';
           sign = (if m < 0 then ''-'' else '''');
           ex = (if 0 \<le> n - 1 then ''+'' else ''-'') @ digitsOf (nat \<bar>n - 1\<bar>)
       in sign @
          (if - 5 \<le> n \<and> n \<le> 21 then
             (if k \<le> n then ds @ replicate (nat (n - k)) (CHR ''0'')
              else if 0 < n then take (nat n) ds @ ''.'' @ drop (nat n) ds
              else ''0.'' @ replicate (nat (- n)) (CHR ''0'') @ ds)
           else
             (if k = 1 then ds @ ''e'' @ ex
              else take 1 ds @ ''.'' @ drop 1 ds @ ''e'' @ ex))))"

subsection \<open>Property reads, conversions, truthiness\<close>

text \<open>
  \<open>v.k\<close> for the property names the source reads: none of them is on a built-in
  prototype, so only own properties (and \<open>length\<close> of arrays and strings) are found.
  Reading a property of \<open>undefined\<close> or \<open>null\<close> raises a TypeError.
\<close>

fun getProp :: "json option \<Rightarrow> string \<Rightarrow> error + json option" where
  "getProp None k = Inl TypeError"
| "getProp (Some JNull) k = Inl TypeError"
| "getProp (Some (JObj kvs)) k = Inr (map_of kvs k)"
| "getProp (Some (JArr xs)) k =
     Inr (if k = ''length'' then Some (JNum (natNumber (length xs))) else None)"
| "getProp (Some (JStr s)) k =
     Inr (if k = ''length'' then Some (JNum (natNumber (length s))) else None)"
| "getProp (Some (JBool b)) k = Inr None"
| "getProp (Some (JNum n)) k = Inr None"

text \<open>\<open>v[i]\<close> for a loop counter \<open>i\<close>.\<close>

fun getIndex :: "json option \<Rightarrow> nat \<Rightarrow> error + json option" where
  "getIndex None i = Inl TypeError"
| "getIndex (Some JNull) i = Inl TypeError"
| "getIndex (Some (JArr xs)) i = Inr (if i < length xs then Some (xs ! i) else None)"
| "getIndex (Some (JStr s)) i = Inr (if i < length s then Some (JStr [s ! i]) else None)"
| "getIndex (Some (JObj kvs)) i = Inr (map_of kvs (digitsOf i))"
| "getIndex (Some (JBool b)) i = Inr None"
| "getIndex (Some (JNum n)) i = Inr None"

text \<open>
  \<open>ToString\<close>, as a template literal applies it. An array is joined with commas, its
  \<open>null\<close> elements printing as nothing. An object prints as \<open>[object Object]\<close> unless
  it has an own property \<open>toString\<close>: that one is JSON data, so not callable, and the
  conversion raises a TypeError.
\<close>

fun toStringJ :: "json \<Rightarrow> error + string"
  and joinJ :: "json list \<Rightarrow> error + string" where
  "toStringJ JNull = Inr ''null''"
| "toStringJ (JBool b) = Inr (if b then ''true'' else ''false'')"
| "toStringJ (JNum n) = Inr (Number_toString n)"
| "toStringJ (JStr s) = Inr s"
| "toStringJ (JArr xs) = joinJ xs"
| "toStringJ (JObj kvs) =
     (if map_of kvs ''toString'' = None then Inr ''[object Object]'' else Inl TypeError)"
| "joinJ [] = Inr ''''"
| "joinJ (x # xs) =
     (case (if x = JNull then Inr '''' else toStringJ x) of
        Inl e \<Rightarrow> Inl e
      | Inr s \<Rightarrow> (if xs = [] then Inr s
                 else (case joinJ xs of Inl e \<Rightarrow> Inl e | Inr r \<Rightarrow> Inr (s @ '','' @ r))))"

definition toString :: "json option \<Rightarrow> error + string" where
  "toString v = (case v of None \<Rightarrow> Inr ''undefined'' | Some j \<Rightarrow> toStringJ j)"

text \<open>\<open>ToBoolean\<close>: what \<open>if (v)\<close> and \<open>!v\<close> test.\<close>

fun truthy :: "json option \<Rightarrow> bool" where
  "truthy None = False"
| "truthy (Some JNull) = False"
| "truthy (Some (JBool b)) = b"
| "truthy (Some (JNum n)) = (num_val n \<noteq> 0)"
| "truthy (Some (JStr s)) = (s \<noteq> [])"
| "truthy (Some (JArr xs)) = True"
| "truthy (Some (JObj kvs)) = True"

text \<open>\<open>v === 0\<close>.\<close>

fun strictEqualsZero :: "json option \<Rightarrow> bool" where
  "strictEqualsZero (Some (JNum n)) = (num_val n = 0)"
| "strictEqualsZero _ = False"

text \<open>
  \<open>ToNumber\<close>, as the comparison \<open>i < v\<close> applies it. The conversion of a string to a
  number (\<open>StringToNumber\<close> of ECMA-262) is the platform's and is a parameter; the
  string \<open>[object Object]\<close> converts to NaN.
\<close>

fun toNumber :: "(string \<Rightarrow> number option) \<Rightarrow> json option \<Rightarrow> error + number option" where
  "toNumber stn None = Inr None"
| "toNumber stn (Some JNull) = Inr (Some (Dec 0 0))"
| "toNumber stn (Some (JBool b)) = Inr (Some (Dec (if b then 1 else 0) 0))"
| "toNumber stn (Some (JNum n)) = Inr (Some n)"
| "toNumber stn (Some (JStr s)) = Inr (stn s)"
| "toNumber stn (Some (JArr xs)) = bindE (joinJ xs) (\<lambda>s. Inr (stn s))"
| "toNumber stn (Some (JObj kvs)) =
     (if map_of kvs ''toString'' = None then Inr None else Inl TypeError)"

text \<open>\<open>i < v\<close> for a loop counter \<open>i\<close> and a converted \<open>v\<close>: false on NaN.\<close>

definition lessThan_num :: "nat \<Rightarrow> number option \<Rightarrow> bool" where
  "lessThan_num i b = (case b of None \<Rightarrow> False | Some n \<Rightarrow> of_nat i < num_val n)"

text \<open>The values a \<open>for ... of\<close> loop visits; a value that is not iterable raises.\<close>

fun iterate :: "json option \<Rightarrow> error + json list" where
  "iterate (Some (JArr xs)) = Inr xs"
| "iterate (Some (JStr s)) = Inr (map (\<lambda>c. JStr [c]) s)"
| "iterate _ = Inl TypeError"

section \<open>Argument validation: the zod schemas (index.ts:12-27)\<close>

text \<open>The type zod reports for a value that is not what the schema expects.\<close>

fun parsedType :: "json option \<Rightarrow> string" where
  "parsedType None = ''undefined''"
| "parsedType (Some JNull) = ''null''"
| "parsedType (Some (JBool b)) = ''boolean''"
| "parsedType (Some (JNum n)) = ''number''"
| "parsedType (Some (JStr s)) = ''string''"
| "parsedType (Some (JArr xs)) = ''array''"
| "parsedType (Some (JObj kvs)) = ''object''"

text \<open>
  \<open>z.number().min(lo).max(hi)\<close> at a path: the value must be a number; both bounds are
  inclusive and each violated bound is one issue. The value is returned as it came.
\<close>

definition zNumber :: "int \<Rightarrow> int \<Rightarrow> string list \<Rightarrow> json option \<Rightarrow> zod_issue list + number" where
  "zNumber lo hi path v = (case v of
      Some (JNum n) \<Rightarrow>
        (let issues = (if num_val n < of_int lo then [(path, too_small lo)] else []) @
                      (if of_int hi < num_val n then [(path, too_big hi)] else [])
         in if issues = [] then Inr n else Inl issues)
    | _ \<Rightarrow> Inl [(path, invalid_type ''number'' (parsedType v))])"

text \<open>
  \<open>schema.optional().default(d)\<close>: an absent value is replaced by \<open>d\<close> before the inner
  schema runs, so the inner schema never sees \<open>undefined\<close>.
\<close>

definition zOptionalDefault ::
  "number \<Rightarrow> (json option \<Rightarrow> zod_issue list + number) \<Rightarrow> json option \<Rightarrow> zod_issue list + number" where
  "zOptionalDefault d inner v = (case v of None \<Rightarrow> inner (Some (JNum d)) | Some j \<Rightarrow> inner v)"

text \<open>\<open>z.string()\<close> at a path.\<close>

definition zString :: "string list \<Rightarrow> json option \<Rightarrow> zod_issue list + string" where
  "zString path v = (case v of
      Some (JStr s) \<Rightarrow> Inr s
    | _ \<Rightarrow> Inl [(path, invalid_type ''string'' (parsedType v))])"

fun issuesOf :: "zod_issue list + 'a \<Rightarrow> zod_issue list" where
  "issuesOf (Inl issues) = issues"
| "issuesOf (Inr x) = []"

record coordinates =
  latitude :: number
  longitude :: number

record forecast_args = coordinates +
  forecast_days :: number

record geocode_args =
  location :: string

text \<open>
  \<open>Schema.parse(args)\<close> of a \<open>z.object\<close>: the argument must be an object; every field is
  checked and the issues of all fields are collected; unknown keys are dropped.
  \<open>Inl\<close> is the thrown \<open>ZodError\<close>.
\<close>

definition GetForecastArgsSchema :: "json option \<Rightarrow> zod_issue list + forecast_args" where
  "GetForecastArgsSchema args = (case args of
      Some (JObj kvs) \<Rightarrow>
        (let lat = zNumber (- 90) 90 [''latitude''] (map_of kvs ''latitude'');
             lon = zNumber (- 180) 180 [''longitude''] (map_of kvs ''longitude'');
             days = zOptionalDefault (Dec 7 0) (zNumber 1 16 [''forecast_days''])
                      (map_of kvs ''forecast_days'')
         in (case (lat, lon, days) of
               (Inr a, Inr b, Inr c) \<Rightarrow>
                 Inr \<lparr>latitude = a, longitude = b, forecast_days = c\<rparr>
             | _ \<Rightarrow> Inl (issuesOf lat @ issuesOf lon @ issuesOf days)))
    | _ \<Rightarrow> Inl [([], invalid_type ''object'' (parsedType args))])"

definition GetCurrentWeatherArgsSchema :: "json option \<Rightarrow> zod_issue list + coordinates" where
  "GetCurrentWeatherArgsSchema args = (case args of
      Some (JObj kvs) \<Rightarrow>
        (let lat = zNumber (- 90) 90 [''latitude''] (map_of kvs ''latitude'');
             lon = zNumber (- 180) 180 [''longitude''] (map_of kvs ''longitude'')
         in (case (lat, lon) of
               (Inr a, Inr b) \<Rightarrow> Inr \<lparr>latitude = a, longitude = b\<rparr>
             | _ \<Rightarrow> Inl (issuesOf lat @ issuesOf lon)))
    | _ \<Rightarrow> Inl [([], invalid_type ''object'' (parsedType args))])"

definition GeocodeArgsSchema :: "json option \<Rightarrow> zod_issue list + geocode_args" where
  "GeocodeArgsSchema args = (case args of
      Some (JObj kvs) \<Rightarrow>
        (case zString [''location''] (map_of kvs ''location'') of
           Inr s \<Rightarrow> Inr \<lparr>location = s\<rparr>
         | Inl issues \<Rightarrow> Inl issues)
    | _ \<Rightarrow> Inl [([], invalid_type ''object'' (parsedType args))])"

section \<open>Request URLs (index.ts:62-67, 79-82, 94-98)\<close>

record url =
  base :: string
  searchParams :: "(string \<times> string) list"

definition URL_new :: "string \<Rightarrow> url" where
  "URL_new b = \<lparr>base = b, searchParams = []\<rparr>"

definition searchParams_append :: "string \<Rightarrow> string \<Rightarrow> url \<Rightarrow> url" where
  "searchParams_append k v u = u\<lparr>searchParams := searchParams u @ [(k, v)]\<rparr>"

text \<open>
  \<open>url.toString()\<close>: the query is serialised as application/x-www-form-urlencoded. A
  space becomes \<open>+\<close>; letters, digits and \<open>* - . _\<close> stay; every other character is
  written as the \<open>%XX\<close> of its UTF-8 bytes.
\<close>

definition hex_char :: "nat \<Rightarrow> char" where
  "hex_char d = ''0123456789ABCDEF'' ! d"

definition percent :: "nat \<Rightarrow> string" where
  "percent b = [CHR ''%'', hex_char (b div 16), hex_char (b mod 16)]"

definition utf8 :: "nat \<Rightarrow> nat list" where
  "utf8 n = (if n < 128 then [n] else [192 + n div 64, 128 + n mod 64])"

definition unreserved :: "nat \<Rightarrow> bool" where
  "unreserved n \<longleftrightarrow> n = 42 \<or> n = 45 \<or> n = 46 \<or> n = 95 \<or>
     (48 \<le> n \<and> n \<le> 57) \<or> (65 \<le> n \<and> n \<le> 90) \<or> (97 \<le> n \<and> n \<le> 122)"

definition encodeChar :: "char \<Rightarrow> string" where
  "encodeChar c = (let n = (of_char c :: nat) in
     if n = 32 then ''+''
     else if unreserved n then [c]
     else concat (map percent (utf8 n)))"

definition urlencode :: "string \<Rightarrow> string" where
  "urlencode s = concat (map encodeChar s)"

fun serializeParams :: "(string \<times> string) list \<Rightarrow> string" where
  "serializeParams [] = ''''"
| "serializeParams [(k, v)] = urlencode k @ ''='' @ urlencode v"
| "serializeParams ((k, v) # p # ps) =
     urlencode k @ ''='' @ urlencode v @ ''&'' @ serializeParams (p # ps)"

definition url_toString :: "url \<Rightarrow> string" where
  "url_toString u =
     (if searchParams u = [] then base u else base u @ ''?'' @ serializeParams (searchParams u))"

text \<open>The URL each API function builds before it calls \<open>fetch\<close>.\<close>

definition forecastUrl :: "number \<Rightarrow> number \<Rightarrow> number \<Rightarrow> url" where
  "forecastUrl lat lon days =
     searchParams_append ''timezone'' ''auto''
      (searchParams_append ''forecast_days'' (Number_toString days)
       (searchParams_append ''daily''
          ''temperature_2m_max,temperature_2m_min,precipitation_sum,wind_speed_10m_max,weather_code''
        (searchParams_append ''longitude'' (Number_toString lon)
         (searchParams_append ''latitude'' (Number_toString lat)
          (URL_new ''https://api.open-meteo.com/v1/forecast'')))))"

definition currentWeatherUrl :: "number \<Rightarrow> number \<Rightarrow> url" where
  "currentWeatherUrl lat lon =
     searchParams_append ''current''
        ''temperature_2m,relative_humidity_2m,precipitation,wind_speed_10m,wind_direction_10m,weather_code''
      (searchParams_append ''longitude'' (Number_toString lon)
       (searchParams_append ''latitude'' (Number_toString lat)
        (URL_new ''https://api.open-meteo.com/v1/forecast'')))"

definition geocodeUrl :: "string \<Rightarrow> url" where
  "geocodeUrl loc =
     searchParams_append ''format'' ''json''
      (searchParams_append ''language'' ''en''
       (searchParams_append ''count'' ''5''
        (searchParams_append ''name'' loc
         (URL_new ''https://geocoding-api.open-meteo.com/v1/search''))))"

section \<open>The upstream service and the platform\<close>

text \<open>
  What \<open>fetch\<close> followed by \<open>response.json()\<close> can give: \<open>ok\<close>, \<open>statusText\<close> and the
  parsed body, \<open>None\<close> when the body is not JSON.
\<close>

datatype response = Response bool string "json option"

text \<open>
  The environment of a call: \<open>fetch\<close> maps the URL string to the response, \<open>None\<close> when
  the request is rejected without a response; \<open>stringToNumber\<close> is the platform's
  conversion of a string to a number, \<open>None\<close> for NaN.
\<close>

record env =
  fetch :: "string \<Rightarrow> response option"
  stringToNumber :: "string \<Rightarrow> number option"

section \<open>Formatters (index.ts:30-58, 105-121)\<close>

text \<open>The text of \<open>${obj.k}\<close> and of \<open>${obj.k[i]}\<close>.\<close>

definition fieldText :: "json option \<Rightarrow> string \<Rightarrow> error + string" where
  "fieldText obj k = bindE (getProp obj k) toString"

definition elementText :: "json option \<Rightarrow> string \<Rightarrow> nat \<Rightarrow> error + string" where
  "elementText obj k i = bindE (getProp obj k) (\<lambda>a. bindE (getIndex a i) toString)"

definition degreeSign :: string where
  "degreeSign = [CHR 0xB0]"

text \<open>The five lines that one pass of the loop of \<open>formatForecast\<close> appends.\<close>

definition dayLines :: "json option \<Rightarrow> nat \<Rightarrow> error + string" where
  "dayLines daily i =
     bindE (elementText daily ''time'' i) (\<lambda>date.
     bindE (elementText daily ''temperature_2m_max'' i) (\<lambda>tmax.
     bindE (elementText daily ''temperature_2m_min'' i) (\<lambda>tmin.
     bindE (elementText daily ''precipitation_sum'' i) (\<lambda>precip.
     bindE (elementText daily ''wind_speed_10m_max'' i) (\<lambda>wind.
     bindE (elementText daily ''weather_code'' i) (\<lambda>code.
       Inr (''Date: '' @ date @ ''\<newline>'' @
            ''  Temperature: '' @ tmax @ degreeSign @ ''C max, '' @ tmin @ degreeSign @ ''C min\<newline>'' @
            ''  Precipitation: '' @ precip @ '' mm\<newline>'' @
            ''  Wind Speed: '' @ wind @ '' km/h max\<newline>'' @
            ''  Weather Code: '' @ code @ ''\<newline>\<newline>'')))))))"

text \<open>The loop condition \<open>i < daily.time.length\<close>, evaluated before every pass.\<close>

definition loopBound :: "(string \<Rightarrow> number option) \<Rightarrow> json option \<Rightarrow> error + number option" where
  "loopBound stn daily =
     bindE (getProp daily ''time'') (\<lambda>t. bindE (getProp t ''length'') (toNumber stn))"

function forecastLoop ::
  "(string \<Rightarrow> number option) \<Rightarrow> json option \<Rightarrow> nat \<Rightarrow> string \<Rightarrow> error + string" where
  "forecastLoop stn daily i result =
     (case loopBound stn daily of
        Inl e \<Rightarrow> Inl e
      | Inr b \<Rightarrow>
          if lessThan_num i b then
            (case dayLines daily i of
               Inl e \<Rightarrow> Inl e
             | Inr block \<Rightarrow> forecastLoop stn daily (i + 1) (result @ block))
          else Inr result)"
  by pat_completeness auto
termination
proof (relation "measure (\<lambda>(stn, daily, i, result).
         case loopBound stn daily of Inr (Some n) \<Rightarrow> nat \<lceil>num_val n\<rceil> - i | _ \<Rightarrow> 0)")
  show "wf (measure (\<lambda>(stn, daily, i, result).
         case loopBound stn daily of Inr (Some n) \<Rightarrow> nat \<lceil>num_val n\<rceil> - i | _ \<Rightarrow> 0))"
    by simp
next
  fix stn :: "string \<Rightarrow> number option" and daily :: "json option" and i :: nat
    and result :: string and b block
  assume bound: "loopBound stn daily = Inr b" and less: "lessThan_num i b"
  from less obtain n where b: "b = Some n" and lt: "of_nat i < num_val n"
    by (cases b) (auto simp: lessThan_num_def)
  have "int i < \<lceil>num_val n\<rceil>"
    using lt by (simp add: less_ceiling_iff)
  then have "i < nat \<lceil>num_val n\<rceil>"
    by simp
  then show "((stn, daily, i + 1, result @ block), (stn, daily, i, result)) \<in>
      measure (\<lambda>(stn, daily, i, result).
         case loopBound stn daily of Inr (Some n) \<Rightarrow> nat \<lceil>num_val n\<rceil> - i | _ \<Rightarrow> 0)"
    using bound b by simp
qed

declare forecastLoop.simps [simp del]

definition formatForecast :: "(string \<Rightarrow> number option) \<Rightarrow> json \<Rightarrow> error + string" where
  "formatForecast stn data =
     bindE (getProp (Some data) ''latitude'') (\<lambda>latitude.
     bindE (getProp (Some data) ''longitude'') (\<lambda>longitude.
     bindE (getProp (Some data) ''daily'') (\<lambda>daily.
     bindE (toString latitude) (\<lambda>lat.
     bindE (toString longitude) (\<lambda>lon.
       forecastLoop stn daily 0
         (''Weather Forecast for coordinates ('' @ lat @ '', '' @ lon @ '')\<newline>\<newline>''))))))"

definition formatCurrentWeather :: "json \<Rightarrow> error + string" where
  "formatCurrentWeather data =
     bindE (getProp (Some data) ''latitude'') (\<lambda>latitude.
     bindE (getProp (Some data) ''longitude'') (\<lambda>longitude.
     bindE (getProp (Some data) ''current'') (\<lambda>current.
     bindE (toString latitude) (\<lambda>lat.
     bindE (toString longitude) (\<lambda>lon.
     bindE (fieldText current ''time'') (\<lambda>time.
     bindE (fieldText current ''temperature_2m'') (\<lambda>temp.
     bindE (fieldText current ''relative_humidity_2m'') (\<lambda>hum.
     bindE (fieldText current ''precipitation'') (\<lambda>precip.
     bindE (fieldText current ''wind_speed_10m'') (\<lambda>wind.
     bindE (fieldText current ''wind_direction_10m'') (\<lambda>dir.
     bindE (fieldText current ''weather_code'') (\<lambda>code.
       Inr (''Current Weather for coordinates ('' @ lat @ '', '' @ lon @ '')\<newline>\<newline>'' @
            ''Time: '' @ time @ ''\<newline>'' @
            ''Temperature: '' @ temp @ degreeSign @ ''C\<newline>'' @
            ''Relative Humidity: '' @ hum @ ''%\<newline>'' @
            ''Precipitation: '' @ precip @ '' mm\<newline>'' @
            ''Wind Speed: '' @ wind @ '' km/h\<newline>'' @
            ''Wind Direction: '' @ dir @ degreeSign @ ''\<newline>'' @
            ''Weather Code: '' @ code @ ''\<newline>'')))))))))))))"

text \<open>The lines that one pass of the loop of \<open>geocodeLocation\<close> appends for a place.\<close>

definition optionalPart :: "json option \<Rightarrow> string \<Rightarrow> string \<Rightarrow> string \<Rightarrow> error + string" where
  "optionalPart place k pre post =
     bindE (getProp place k) (\<lambda>v.
       if truthy v then bindE (toString v) (\<lambda>s. Inr (pre @ s @ post)) else Inr '''')"

definition placeLines :: "json \<Rightarrow> error + string" where
  "placeLines place =
     bindE (fieldText (Some place) ''name'') (\<lambda>name.
     bindE (optionalPart (Some place) ''admin1'' '', '' '''') (\<lambda>admin1.
     bindE (optionalPart (Some place) ''country'' '', '' '''') (\<lambda>country.
     bindE (fieldText (Some place) ''latitude'') (\<lambda>lat.
     bindE (fieldText (Some place) ''longitude'') (\<lambda>lon.
     bindE (optionalPart (Some place) ''elevation'' ''  Elevation: '' ''m\<newline>'') (\<lambda>elevation.
       Inr (name @ admin1 @ country @
            ''\<newline>  Coordinates: '' @ lat @ '', '' @ lon @ ''\<newline>'' @
            elevation @ ''\<newline>'')))))))"

fun geocodeLoop :: "json list \<Rightarrow> string \<Rightarrow> error + string" where
  "geocodeLoop [] result = Inr result"
| "geocodeLoop (place # places) result =
     (case placeLines place of
        Inl e \<Rightarrow> Inl e
      | Inr block \<Rightarrow> geocodeLoop places (result @ block))"

definition dquote :: string where
  "dquote = [CHR 0x22]"

text \<open>
  The part of \<open>geocodeLocation\<close> after \<open>response.json()\<close>: the test for no results, then
  the header and the loop over the places.
\<close>

definition formatGeocode :: "string \<Rightarrow> json \<Rightarrow> error + string" where
  "formatGeocode loc data =
     bindE (getProp (Some data) ''results'') (\<lambda>results.
       if \<not> truthy results then Inr (''No results found for location: '' @ loc)
       else
         bindE (getProp results ''length'') (\<lambda>len.
           if strictEqualsZero len then Inr (''No results found for location: '' @ loc)
           else
             bindE (iterate results) (\<lambda>places.
               geocodeLoop places
                 (''Geocoding results for '' @ dquote @ loc @ dquote @ '':\<newline>\<newline>''))))"

section \<open>API functions (index.ts:61-122)\<close>

text \<open>
  Each API function builds its URL, calls \<open>fetch\<close> once, and fails on a response that is
  not ok. The first component of the result lists the URLs that were requested.
\<close>

definition request ::
  "env \<Rightarrow> url \<Rightarrow> string \<Rightarrow> (json \<Rightarrow> error + string) \<Rightarrow> string list \<times> (error + string)" where
  "request E u api format =
     ([url_toString u],
      (case fetch E (url_toString u) of
         None \<Rightarrow> Inl FetchError
       | Some (Response ok statusText body) \<Rightarrow>
           if \<not> ok then Inl (Error (api @ '' API error: '' @ statusText))
           else (case body of None \<Rightarrow> Inl SyntaxError | Some data \<Rightarrow> format data)))"

definition getForecast :: "env \<Rightarrow> number \<Rightarrow> number \<Rightarrow> number \<Rightarrow> string list \<times> (error + string)" where
  "getForecast E lat lon days =
     request E (forecastUrl lat lon days) ''Open Meteo'' (formatForecast (stringToNumber E))"

definition getCurrentWeather :: "env \<Rightarrow> number \<Rightarrow> number \<Rightarrow> string list \<times> (error + string)" where
  "getCurrentWeather E lat lon =
     request E (currentWeatherUrl lat lon) ''Open Meteo'' formatCurrentWeather"

definition geocodeLocation :: "env \<Rightarrow> string \<Rightarrow> string list \<times> (error + string)" where
  "geocodeLocation E loc = request E (geocodeUrl loc) ''Geocoding'' (formatGeocode loc)"

section \<open>The call handler (index.ts:211-255)\<close>

record tool_request =
  name :: string
  arguments :: "json option"

datatype content = TextContent string

text \<open>\<open>return { content: [{ type: "text", text }] }\<close> around the outcome of an API function.\<close>

definition reply :: "string list \<times> (error + string) \<Rightarrow> string list \<times> (error + content list)" where
  "reply r = (fst r, (case snd r of Inl e \<Rightarrow> Inl e | Inr text \<Rightarrow> Inr [TextContent text]))"

text \<open>
  The handler of \<open>CallToolRequestSchema\<close>: dispatch on the tool name, validate, call. A
  \<open>ZodError\<close> is rethrown as the \<open>Invalid arguments\<close> error; every other error passes.
\<close>

definition callTool :: "env \<Rightarrow> tool_request \<Rightarrow> string list \<times> (error + content list)" where
  "callTool E req =
     (if name req = ''get_forecast'' then
        (case GetForecastArgsSchema (arguments req) of
           Inl issues \<Rightarrow> ([], Inl (InvalidArguments issues))
         | Inr parsed \<Rightarrow>
             reply (getForecast E (latitude parsed) (longitude parsed) (forecast_days parsed)))
      else if name req = ''get_current_weather'' then
        (case GetCurrentWeatherArgsSchema (arguments req) of
           Inl issues \<Rightarrow> ([], Inl (InvalidArguments issues))
         | Inr parsed \<Rightarrow> reply (getCurrentWeather E (latitude parsed) (longitude parsed)))
      else if name req = ''geocode'' then
        (case GeocodeArgsSchema (arguments req) of
           Inl issues \<Rightarrow> ([], Inl (InvalidArguments issues))
         | Inr parsed \<Rightarrow> reply (geocodeLocation E (location parsed)))
      else ([], Inl (Error (''Unknown tool: '' @ name req))))"

section \<open>Expected layouts and mocked environments\<close>

text \<open>
  The text a value contributes to a report when its conversion succeeds, and whether it
  does (it fails only on an object with an own \<open>toString\<close> property).
\<close>

definition printable :: "json \<Rightarrow> bool" where
  "printable v = (\<not> isl (toStringJ v))"

definition textOf :: "json \<Rightarrow> string" where
  "textOf v = (case toStringJ v of Inr s \<Rightarrow> s | Inl e \<Rightarrow> '''')"

definition shownAt :: "json list \<Rightarrow> nat \<Rightarrow> string" where
  "shownAt xs i = (if i < length xs then textOf (xs ! i) else ''undefined'')"

text \<open>
  The day block of the forecast report for index \<open>i\<close> of the daily series, as the
  specification lays it out: the date line, four indented lines, a blank line.
\<close>

definition specDayBlock ::
  "json list \<Rightarrow> json list \<Rightarrow> json list \<Rightarrow> json list \<Rightarrow> json list \<Rightarrow> json list \<Rightarrow> nat \<Rightarrow> string" where
  "specDayBlock ts tmax tmin ps ws wc i =
     ''Date: '' @ shownAt ts i @ ''\<newline>'' @
     ''  Temperature: '' @ shownAt tmax i @ degreeSign @ ''C max, '' @
        shownAt tmin i @ degreeSign @ ''C min\<newline>'' @
     ''  Precipitation: '' @ shownAt ps i @ '' mm\<newline>'' @
     ''  Wind Speed: '' @ shownAt ws i @ '' km/h max\<newline>'' @
     ''  Weather Code: '' @ shownAt wc i @ ''\<newline>\<newline>''"

text \<open>
  A mocked environment: every request is answered with status 200 and the given parsed
  body. No string is converted to a number in the examples that use it, so that
  conversion is left trivial.
\<close>

definition mockEnv :: "json \<Rightarrow> env" where
  "mockEnv body =
     \<lparr>fetch = (\<lambda>u. Some (Response True ''OK'' (Some body))),
      stringToNumber = (\<lambda>s. None)\<rparr>"

definition geocodeRequest :: "string \<Rightarrow> tool_request" where
  "geocodeRequest loc =
     \<lparr>name = ''geocode'', arguments = Some (JObj [(''location'', JStr loc)])\<rparr>"

definition coordinateArgs :: "number \<Rightarrow> number \<Rightarrow> (string \<times> json) list" where
  "coordinateArgs lat lon = [(''latitude'', JNum lat), (''longitude'', JNum lon)]"

definition toolRequest :: "string \<Rightarrow> (string \<times> json) list \<Rightarrow> tool_request" where
  "toolRequest tool kvs = \<lparr>name = tool, arguments = Some (JObj kvs)\<rparr>"

text \<open>A well-formed current-weather body and a well-formed forecast body of two days.\<close>

definition mockCurrent :: "(string \<times> json) list" where
  "mockCurrent =
     [(''time'', JStr ''2024-01-01T12:00''),
      (''temperature_2m'', JNum (Dec (- 254) (- 1))),
      (''relative_humidity_2m'', JNum (Dec 80 0)),
      (''precipitation'', JNum (Dec 0 0)),
      (''wind_speed_10m'', JNum (Dec 125 (- 1))),
      (''wind_direction_10m'', JNum (Dec 270 0)),
      (''weather_code'', JNum (Dec 3 0))]"

definition mockCurrentFields :: "(string \<times> json) list" where
  "mockCurrentFields =
     [(''latitude'', JNum (Dec 90 0)), (''longitude'', JNum (Dec (- 180) 0)),
      (''current'', JObj mockCurrent)]"


definition mockDaily :: "(string \<times> json) list" where
  "mockDaily =
     [(''time'', JArr [JStr ''2024-01-01'', JStr ''2024-01-02'']),
      (''temperature_2m_max'', JArr [JNum (Dec 52 (- 1)), JNum (Dec 6 0)]),
      (''temperature_2m_min'', JArr [JNum (Dec (- 13) (- 1)), JNum (Dec 0 0)]),
      (''precipitation_sum'', JArr [JNum (Dec 0 0), JNum (Dec 24 (- 1))]),
      (''wind_speed_10m_max'', JArr [JNum (Dec 15 0), JNum (Dec 203 (- 1))]),
      (''weather_code'', JArr [JNum (Dec 3 0), JNum (Dec 61 0)])]"

definition mockForecastFields :: "(string \<times> json) list" where
  "mockForecastFields =
     [(''latitude'', JNum (Dec 5252 (- 2))), (''longitude'', JNum (Dec 1341 (- 2))),
      (''daily'', JObj mockDaily)]"

definition mockForecastBody :: json where
  "mockForecastBody = JObj mockForecastFields"

text \<open>
  A forecast body whose value arrays are shorter than \<open>daily.time\<close>, and one without
  \<open>daily\<close>.
\<close>

definition shortDaily :: "(string \<times> json) list" where
  "shortDaily =
     [(''time'', JArr [JStr ''2024-01-01'']),
      (''temperature_2m_max'', JArr []),
      (''temperature_2m_min'', JArr []),
      (''precipitation_sum'', JArr []),
      (''wind_speed_10m_max'', JArr []),
      (''weather_code'', JArr [])]"

definition shortForecastFields :: "(string \<times> json) list" where
  "shortForecastFields =
     [(''latitude'', JNum (Dec 5252 (- 2))), (''longitude'', JNum (Dec 1341 (- 2))),
      (''daily'', JObj shortDaily)]"

definition bareFields :: "(string \<times> json) list" where
  "bareFields = [(''latitude'', JNum (Dec 5252 (- 2))), (''longitude'', JNum (Dec 1341 (- 2)))]"

definition forecastArgs :: "number \<Rightarrow> number \<Rightarrow> number \<Rightarrow> (string \<times> json) list" where
  "forecastArgs lat lon days = coordinateArgs lat lon @ [(''forecast_days'', JNum days)]"

section \<open>Reading a request URL back\<close>

text \<open>
  Modelled from the spec: the re-parsing of the query parameters of a request URL, to
  which the round-trip property of the specification refers. The source builds URLs
  and has no parser, so the definitions of this section follow the documentation of the
  platform: the application/x-www-form-urlencoded parser of the URL Standard, which is
  what \<open>new URL(u).searchParams\<close> runs, and the decimal literals that \<open>Number(s)\<close> and
  \<open>parseFloat(s)\<close> read (ECMA-262, \<open>StrDecimalLiteral\<close>).
\<close>

text \<open>Modelled from the spec: the value of a hexadecimal digit of a \<open>%XX\<close> escape.\<close>

definition hexval :: "char \<Rightarrow> nat option" where
  "hexval c = (let n = (of_char c :: nat) in
     if 48 \<le> n \<and> n \<le> 57 then Some (n - 48)
     else if 65 \<le> n \<and> n \<le> 70 then Some (n - 55)
     else if 97 \<le> n \<and> n \<le> 102 then Some (n - 87)
     else None)"

text \<open>
  Modelled from the spec: the bytes of a name or value of a query. A \<open>+\<close> is a space, a
  \<open>%\<close> followed by two hexadecimal digits is the byte they write, every other character
  is itself.
\<close>

fun percentDecode :: "string \<Rightarrow> nat list" where
  "percentDecode [] = []"
| "percentDecode (c # cs) =
     (if c = CHR ''+'' then 32 # percentDecode cs
      else if c = CHR ''%'' then
        (case cs of
           h1 # h2 # rest \<Rightarrow>
             (case (hexval h1, hexval h2) of
                (Some a, Some b) \<Rightarrow> (16 * a + b) # percentDecode rest
              | _ \<Rightarrow> 37 # percentDecode cs)
         | _ \<Rightarrow> 37 # percentDecode cs)
      else of_char c # percentDecode cs)"

text \<open>
  Modelled from the spec: UTF-8 decoding of those bytes. The strings of the model have
  code units below 256, so only one-byte and two-byte sequences have a result here;
  \<open>None\<close> is a text outside the model.
\<close>

fun utf8Decode :: "nat list \<Rightarrow> string option" where
  "utf8Decode [] = Some []"
| "utf8Decode (b # bs) =
     (if b < 128 then map_option (Cons (char_of b)) (utf8Decode bs)
      else if 194 \<le> b \<and> b \<le> 195 then
        (case bs of
           [] \<Rightarrow> None
         | b2 # rest \<Rightarrow>
             if 128 \<le> b2 \<and> b2 < 192
             then map_option (Cons (char_of ((b - 192) * 64 + (b2 - 128)))) (utf8Decode rest)
             else None)
      else None)"

definition urldecode :: "string \<Rightarrow> string option" where
  "urldecode s = utf8Decode (percentDecode s)"

text \<open>Modelled from the spec: the pieces of a string between the occurrences of a separator.\<close>

definition splitOn :: "char \<Rightarrow> string \<Rightarrow> string list" where
  "splitOn c s = foldr (\<lambda>x acc. if x = c then [] # acc else (x # hd acc) # tl acc) s [[]]"

text \<open>
  Modelled from the spec: one \<open>name=value\<close> piece of a query, split at its first \<open>=\<close>, both
  sides decoded.
\<close>

definition parsePair :: "string \<Rightarrow> (string \<times> string) option" where
  "parsePair p =
     (case (urldecode (takeWhile (\<lambda>x. x \<noteq> CHR ''='') p),
            urldecode (drop 1 (dropWhile (\<lambda>x. x \<noteq> CHR ''='') p))) of
        (Some k, Some v) \<Rightarrow> Some (k, v)
      | _ \<Rightarrow> None)"

text \<open>
  Modelled from the spec: the urlencoded parser. The query is split at \<open>&\<close>, empty pieces
  are skipped, every other piece is a pair.
\<close>

definition parseQuery :: "string \<Rightarrow> (string \<times> string) list option" where
  "parseQuery q = those (map parsePair (filter (\<lambda>p. p \<noteq> []) (splitOn (CHR ''&'') q)))"

text \<open>
  Modelled from the spec: the query of a URL string, from after the first \<open>?\<close> up to a
  fragment, and \<open>new URL(u).searchParams.get(k)\<close>, the first value under a name.
\<close>

definition queryOf :: "string \<Rightarrow> string" where
  "queryOf u = takeWhile (\<lambda>x. x \<noteq> CHR ''#'') (drop 1 (dropWhile (\<lambda>x. x \<noteq> CHR ''?'') u))"

definition searchParams_get :: "string \<Rightarrow> string \<Rightarrow> string option" where
  "searchParams_get u k = (case parseQuery (queryOf u) of None \<Rightarrow> None | Some ps \<Rightarrow> map_of ps k)"

text \<open>Modelled from the spec: decimal digits and the natural number they write.\<close>

definition isDigit :: "char \<Rightarrow> bool" where
  "isDigit c = (48 \<le> (of_char c :: nat) \<and> (of_char c :: nat) \<le> 57)"

definition digitVal :: "char \<Rightarrow> nat" where
  "digitVal c = of_char c - 48"

definition natOfDigits :: "string \<Rightarrow> nat" where
  "natOfDigits ds = foldl (\<lambda>a c. 10 * a + digitVal c) 0 ds"

text \<open>Modelled from the spec: the exponent of a decimal literal, digits after an optional sign.\<close>

definition parseSigned :: "string \<Rightarrow> int option" where
  "parseSigned s =
     (let neg = (s \<noteq> [] \<and> hd s = CHR ''-'');
          ds = (if s \<noteq> [] \<and> (hd s = CHR ''-'' \<or> hd s = CHR ''+'') then tl s else s)
      in if ds \<noteq> [] \<and> list_all isDigit ds
         then Some (if neg then - int (natOfDigits ds) else int (natOfDigits ds))
         else None)"

text \<open>
  Modelled from the spec: a decimal literal without sign, as its digits and its power
  of ten: the digits before and after the point, then the exponent after \<open>e\<close>. A text
  that is no such literal has no value (NaN).
\<close>

definition parseUnsigned :: "string \<Rightarrow> (nat \<times> int) option" where
  "parseUnsigned r =
     (let mant = takeWhile (\<lambda>x. x \<noteq> CHR ''e'' \<and> x \<noteq> CHR ''E'') r;
          ex = dropWhile (\<lambda>x. x \<noteq> CHR ''e'' \<and> x \<noteq> CHR ''E'') r;
          ip = takeWhile (\<lambda>x. x \<noteq> CHR ''.'') mant;
          fp = drop 1 (dropWhile (\<lambda>x. x \<noteq> CHR ''.'') mant)
      in if ip @ fp \<noteq> [] \<and> list_all isDigit (ip @ fp) then
           (case (case ex of [] \<Rightarrow> Some 0 | c # x \<Rightarrow> parseSigned x) of
              None \<Rightarrow> None
            | Some k \<Rightarrow> Some (natOfDigits (ip @ fp), k - int (length fp)))
         else None)"

text \<open>Modelled from the spec: the number a decimal literal with an optional sign writes.\<close>

definition parseDecimal :: "string \<Rightarrow> number option" where
  "parseDecimal s =
     (if s \<noteq> [] \<and> hd s = CHR ''-''
      then map_option (\<lambda>(a, b). Dec (- int a) b) (parseUnsigned (tl s))
      else if s \<noteq> [] \<and> hd s = CHR ''+''
      then map_option (\<lambda>(a, b). Dec (int a) b) (parseUnsigned (tl s))
      else map_option (\<lambda>(a, b). Dec (int a) b) (parseUnsigned s))"

text \<open>
  Modelled from the spec: re-parsing a numeric query parameter of a request URL, the
  value of the number read, if there is one.
\<close>

definition reparseNumber :: "string \<Rightarrow> string \<Rightarrow> rat option" where
  "reparseNumber u k = map_option num_val (Option.bind (searchParams_get u k) parseDecimal)"

text \<open>
  The digits of \<open>Number_toString\<close> laid out around the decimal point: its five cases,
  for the digits \<open>ds\<close> and the position \<open>n\<close> of the point.
\<close>

definition decimalBody :: "string \<Rightarrow> int \<Rightarrow> string" where
  "decimalBody ds n =
     (let k = int (length ds);
          ex = (if 0 \<le> n - 1 then ''+'' else ''-'') @ digitsOf (nat \<bar>n - 1\<bar>)
      in if - 5 \<le> n \<and> n \<le> 21 then
           (if k \<le> n then ds @ replicate (nat (n - k)) (CHR ''0'')
            else if 0 < n then take (nat n) ds @ ''.'' @ drop (nat n) ds
            else ''0.'' @ replicate (nat (- n)) (CHR ''0'') @ ds)
         else
           (if k = 1 then ds @ ''e'' @ ex
            else take 1 ds @ ''.'' @ drop 1 ds @ ''e'' @ ex))"

section \<open>Basic facts\<close>

lemma bindE_Inl [simp]: "bindE (Inl e) f = Inl e"
  by (simp add: bindE_def)

lemma bindE_Inr [simp]: "bindE (Inr x) f = f x"
  by (simp add: bindE_def)

lemma urlencode_Nil: "urlencode [] = []"
  by (simp add: urlencode_def)

lemma urlencode_Cons: "urlencode (c # cs) = encodeChar c @ urlencode cs"
  by (simp add: urlencode_def)

text \<open>Unfolding sets for evaluating numbers and URLs on concrete inputs.\<close>

lemmas number_eval = Number_toString_def digitsOf.simps stripZeros.simps digit_char_def Let_def

lemmas url_eval = url_toString_def forecastUrl_def currentWeatherUrl_def geocodeUrl_def
  searchParams_append_def URL_new_def urlencode_Nil urlencode_Cons encodeChar_def unreserved_def
  utf8_def percent_def hex_char_def

lemma request_ok:
  "fetch E (url_toString u) = Some (Response True st (Some data)) \<Longrightarrow>
   request E u api format = ([url_toString u], format data)"
  by (simp add: request_def)

lemma geocode_dispatch:
  "name req = ''geocode'' \<Longrightarrow>
   callTool E req =
     (case GeocodeArgsSchema (arguments req) of
        Inl issues \<Rightarrow> ([], Inl (InvalidArguments issues))
      | Inr parsed \<Rightarrow> reply (geocodeLocation E (location parsed)))"
  by (simp add: callTool_def)

section \<open>The geocode tool\<close>

text \<open>
  C1 (as amended). The geocode schema is \<open>z.string()\<close> with no minimum length: for every
  call of the geocode tool whose \<open>location\<close> argument is a string, the empty string
  included, validation succeeds with that string and the upstream request for it is
  made. Validation fails with InvalidArguments only when \<open>location\<close> is absent or is not
  a string, and then no request is made.
\<close>

theorem geocode_accepts_every_string:
  assumes "name req = ''geocode''" and "arguments req = Some (JObj kvs)"
  shows "(map_of kvs ''location'' = Some (JStr s) \<longrightarrow>
            GeocodeArgsSchema (arguments req) = Inr \<lparr>location = s\<rparr> \<and>
            callTool E req = reply (geocodeLocation E s) \<and>
            fst (callTool E req) = [url_toString (geocodeUrl s)]) \<and>
         ((\<forall>t. map_of kvs ''location'' \<noteq> Some (JStr t)) \<longrightarrow>
            callTool E req =
              ([], Inl (InvalidArguments
                 [([''location''], invalid_type ''string'' (parsedType (map_of kvs ''location'')))])))"
proof (intro conjI impI)
  assume loc: "map_of kvs ''location'' = Some (JStr s)"
  show parsed: "GeocodeArgsSchema (arguments req) = Inr \<lparr>location = s\<rparr>"
    using assms(2) loc by (simp add: GeocodeArgsSchema_def zString_def)
  show call: "callTool E req = reply (geocodeLocation E s)"
    using assms(1) parsed by (simp add: geocode_dispatch)
  show "fst (callTool E req) = [url_toString (geocodeUrl s)]"
    by (simp add: call reply_def geocodeLocation_def request_def)
next
  assume no: "\<forall>t. map_of kvs ''location'' \<noteq> Some (JStr t)"
  have "zString [''location''] (map_of kvs ''location'') =
      Inl [([''location''], invalid_type ''string'' (parsedType (map_of kvs ''location'')))]"
    using no by (auto simp: zString_def split: option.splits json.splits)
  then show "callTool E req =
      ([], Inl (InvalidArguments
         [([''location''], invalid_type ''string'' (parsedType (map_of kvs ''location'')))]))"
    using assms by (simp add: geocode_dispatch GeocodeArgsSchema_def)
qed

theorem geocode_accepts_every_string_witness:
  "name (geocodeRequest '''') = ''geocode'' \<and>
   arguments (geocodeRequest '''') = Some (JObj [(''location'', JStr '''')]) \<and>
   map_of [(''location'', JStr '''')] ''location'' = Some (JStr '''') \<and>
   GeocodeArgsSchema (arguments (geocodeRequest '''')) = Inr \<lparr>location = ''''\<rparr> \<and>
   fst (callTool (mockEnv (JObj [(''results'', JArr [])])) (geocodeRequest '''')) =
     [''https://geocoding-api.open-meteo.com/v1/search?name=&count=5&language=en&format=json'']"
proof -
  have u: "url_toString (geocodeUrl '''') =
      ''https://geocoding-api.open-meteo.com/v1/search?name=&count=5&language=en&format=json''"
    by code_simp
  have n: "name (geocodeRequest '''') = ''geocode''"
    and a: "arguments (geocodeRequest '''') = Some (JObj [(''location'', JStr '''')])"
    by (simp_all add: geocodeRequest_def)
  have m: "map_of [(''location'', JStr '''')] ''location'' = Some (JStr '''')"
    by simp
  from geocode_accepts_every_string [OF n a, of "''''" "mockEnv (JObj [(''results'', JArr [])])"] m
  have p: "GeocodeArgsSchema (arguments (geocodeRequest '''')) = Inr \<lparr>location = ''''\<rparr>"
    and f: "fst (callTool (mockEnv (JObj [(''results'', JArr [])])) (geocodeRequest '''')) =
        [url_toString (geocodeUrl '''')]"
    by blast+
  from n a m p f [unfolded u] show ?thesis
    by (intro conjI)
qed

text \<open>
  The claim as written fails: with the empty string as location the call is validated,
  the request is sent and a success result comes back.
\<close>

theorem geocode_empty_location_counterexample:
  "callTool (mockEnv (JObj [(''results'', JArr [])])) (geocodeRequest '''') =
     ([''https://geocoding-api.open-meteo.com/v1/search?name=&count=5&language=en&format=json''],
      Inr [TextContent ''No results found for location: ''])"
  by code_simp

text \<open>
  C2 (as amended). For every location string, when the upstream geocoding response has
  an empty results list, the result is exactly the single line
  \<open>No results found for location: <location>\<close>; the location is not enclosed in quotes,
  and no further text follows.
\<close>

theorem geocode_no_results_line:
  assumes "fetch E (url_toString (geocodeUrl loc)) = Some (Response True st (Some data))"
    and "getProp (Some data) ''results'' = Inr (Some (JArr []))"
  shows "formatGeocode loc data = Inr (''No results found for location: '' @ loc) \<and>
         geocodeLocation E loc =
           ([url_toString (geocodeUrl loc)], Inr (''No results found for location: '' @ loc))"
  using assms
  by (simp add: geocodeLocation_def request_ok formatGeocode_def natNumber_def num_val_def)

theorem geocode_no_results_line_witness:
  "fetch (mockEnv (JObj [(''results'', JArr [])])) (url_toString (geocodeUrl ''Nowhere123'')) =
     Some (Response True ''OK'' (Some (JObj [(''results'', JArr [])]))) \<and>
   getProp (Some (JObj [(''results'', JArr [])])) ''results'' = Inr (Some (JArr [])) \<and>
   snd (geocodeLocation (mockEnv (JObj [(''results'', JArr [])])) ''Nowhere123'') =
     Inr ''No results found for location: Nowhere123''"
  using geocode_no_results_line
    [of "mockEnv (JObj [(''results'', JArr [])])" "''Nowhere123''" "''OK''"
        "JObj [(''results'', JArr [])]"]
  by (simp add: mockEnv_def)

text \<open>The quoted line of the claim is not what the mocked call of the specification returns.\<close>

theorem geocode_no_results_quoted_counterexample:
  "snd (geocodeLocation (mockEnv (JObj [(''results'', JArr [])])) ''Nowhere123'') \<noteq>
     Inr (''No results found for location: '' @ dquote @ ''Nowhere123'' @ dquote)"
  by code_simp

text \<open>
  C3 (as amended). For every geocode call, if the upstream body parses as JSON and
  reading its \<open>results\<close> yields \<open>undefined\<close> (an object without that field, or any other
  value than \<open>null\<close>), the call does not fail: the source tests \<open>!data.results\<close> and
  returns the line \<open>No results found for location: <location>\<close> as a success result.
\<close>

theorem geocode_absent_results_succeeds:
  assumes "fetch E (url_toString (geocodeUrl loc)) = Some (Response True st (Some data))"
    and "getProp (Some data) ''results'' = Inr None"
  shows "geocodeLocation E loc =
           ([url_toString (geocodeUrl loc)], Inr (''No results found for location: '' @ loc))"
  using assms
  by (simp add: geocodeLocation_def request_ok formatGeocode_def)

theorem geocode_absent_results_succeeds_witness:
  "fetch (mockEnv (JObj [])) (url_toString (geocodeUrl ''Berlin'')) =
     Some (Response True ''OK'' (Some (JObj []))) \<and>
   getProp (Some (JObj [])) ''results'' = Inr None \<and>
   snd (geocodeLocation (mockEnv (JObj [])) ''Berlin'') =
     Inr ''No results found for location: Berlin''"
  using geocode_absent_results_succeeds
    [of "mockEnv (JObj [])" "''Berlin''" "''OK''" "JObj []"]
  by (simp add: mockEnv_def)

text \<open>A body without \<open>results\<close> gives a success text result, not an upstream error.\<close>

theorem geocode_absent_results_counterexample:
  "callTool (mockEnv (JObj [])) (geocodeRequest ''Berlin'') =
     ([''https://geocoding-api.open-meteo.com/v1/search?name=Berlin&count=5&language=en&format=json''],
      Inr [TextContent ''No results found for location: Berlin''])"
  by code_simp

section \<open>Validation of coordinates and forecast days\<close>

lemma zNumber_in_range:
  "of_int lo \<le> num_val n \<Longrightarrow> num_val n \<le> of_int hi \<Longrightarrow>
   zNumber lo hi path (Some (JNum n)) = Inr n"
  by (simp add: zNumber_def)

lemma zNumber_out_of_range:
  "num_val n < of_int lo \<or> of_int hi < num_val n \<Longrightarrow>
   \<exists>issues. zNumber lo hi path (Some (JNum n)) = Inl issues"
  by (auto simp: zNumber_def)

lemma forecast_schema_rejects:
  assumes "(\<exists>issues. zNumber (- 90) 90 [''latitude''] (map_of kvs ''latitude'') = Inl issues) \<or>
           (\<exists>issues. zNumber (- 180) 180 [''longitude''] (map_of kvs ''longitude'') = Inl issues) \<or>
           (\<exists>issues. zOptionalDefault (Dec 7 0) (zNumber 1 16 [''forecast_days''])
                        (map_of kvs ''forecast_days'') = Inl issues)"
  shows "\<exists>issues. GetForecastArgsSchema (Some (JObj kvs)) = Inl issues"
  using assms by (auto simp: GetForecastArgsSchema_def Let_def split: sum.splits)


lemma forecast_schema_accepts:
  assumes "zNumber (- 90) 90 [''latitude''] (map_of kvs ''latitude'') = Inr lat"
    and "zNumber (- 180) 180 [''longitude''] (map_of kvs ''longitude'') = Inr lon"
    and "zOptionalDefault (Dec 7 0) (zNumber 1 16 [''forecast_days''])
           (map_of kvs ''forecast_days'') = Inr days"
  shows "GetForecastArgsSchema (Some (JObj kvs)) =
           Inr \<lparr>latitude = lat, longitude = lon, forecast_days = days\<rparr>"
  using assms by (simp add: GetForecastArgsSchema_def)


lemma default_days: "zOptionalDefault (Dec 7 0) (zNumber 1 16 path) None = Inr (Dec 7 0)"
  by (simp add: zOptionalDefault_def zNumber_def num_val_def)

lemma forecast_dispatch:
  "name req = ''get_forecast'' \<Longrightarrow>
   callTool E req =
     (case GetForecastArgsSchema (arguments req) of
        Inl issues \<Rightarrow> ([], Inl (InvalidArguments issues))
      | Inr parsed \<Rightarrow>
          reply (getForecast E (latitude parsed) (longitude parsed) (forecast_days parsed)))"
  by (simp add: callTool_def)




text \<open>
  C6. For every get_forecast call with valid coordinates: if \<open>forecast_days\<close> is omitted,
  the validated value is 7 and the URL that is requested carries \<open>forecast_days=7\<close>; a
  value below 1 or above 16 (so 0 and 17) fails with InvalidArguments, whatever the
  coordinates are; a value from 1 to 16 (so 1 and 16) passes validation unchanged.
\<close>

theorem forecast_days_default_and_bounds:
  assumes "name req = ''get_forecast''" and "arguments req = Some (JObj kvs)"
  shows "(\<forall>n. map_of kvs ''forecast_days'' = Some (JNum n) \<longrightarrow>
            (num_val n < 1 \<or> 16 < num_val n) \<longrightarrow>
            (\<exists>issues. GetForecastArgsSchema (arguments req) = Inl issues \<and>
                      callTool E req = ([], Inl (InvalidArguments issues)))) \<and>
         (map_of kvs ''latitude'' = Some (JNum lat) \<and> - 90 \<le> num_val lat \<and> num_val lat \<le> 90 \<and>
          map_of kvs ''longitude'' = Some (JNum lon) \<and> - 180 \<le> num_val lon \<and> num_val lon \<le> 180 \<longrightarrow>
            (map_of kvs ''forecast_days'' = None \<longrightarrow>
               GetForecastArgsSchema (arguments req) =
                 Inr \<lparr>latitude = lat, longitude = lon, forecast_days = Dec 7 0\<rparr> \<and>
               (''forecast_days'', ''7'') \<in> set (searchParams (forecastUrl lat lon (Dec 7 0))) \<and>
               fst (callTool E req) = [url_toString (forecastUrl lat lon (Dec 7 0))]) \<and>
            (\<forall>n. map_of kvs ''forecast_days'' = Some (JNum n) \<longrightarrow>
               1 \<le> num_val n \<and> num_val n \<le> 16 \<longrightarrow>
               GetForecastArgsSchema (arguments req) =
                 Inr \<lparr>latitude = lat, longitude = lon, forecast_days = n\<rparr> \<and>
               callTool E req = reply (getForecast E lat lon n)))"
proof (intro conjI allI impI)
  fix n
  assume d: "map_of kvs ''forecast_days'' = Some (JNum n)" and out: "num_val n < 1 \<or> 16 < num_val n"
  have "\<exists>issues. zOptionalDefault (Dec 7 0) (zNumber 1 16 [''forecast_days''])
      (map_of kvs ''forecast_days'') = Inl issues"
    using zNumber_out_of_range [of n 1 16 "[''forecast_days'']"] out d
    by (simp add: zOptionalDefault_def)
  then obtain issues where "GetForecastArgsSchema (Some (JObj kvs)) = Inl issues"
    using forecast_schema_rejects [of kvs] by blast
  then show "\<exists>issues. GetForecastArgsSchema (arguments req) = Inl issues \<and>
      callTool E req = ([], Inl (InvalidArguments issues))"
    using assms by (simp add: forecast_dispatch)
next
  assume c: "map_of kvs ''latitude'' = Some (JNum lat) \<and> - 90 \<le> num_val lat \<and> num_val lat \<le> 90 \<and>
      map_of kvs ''longitude'' = Some (JNum lon) \<and> - 180 \<le> num_val lon \<and> num_val lon \<le> 180"
  have la: "zNumber (- 90) 90 [''latitude''] (map_of kvs ''latitude'') = Inr lat"
    using c by (simp add: zNumber_in_range)
  have lo: "zNumber (- 180) 180 [''longitude''] (map_of kvs ''longitude'') = Inr lon"
    using c by (simp add: zNumber_in_range)
  {
    assume "map_of kvs ''forecast_days'' = None"
    then have "zOptionalDefault (Dec 7 0) (zNumber 1 16 [''forecast_days''])
        (map_of kvs ''forecast_days'') = Inr (Dec 7 0)"
      by (simp add: default_days)
    from forecast_schema_accepts [OF la lo this]
    show parsed: "GetForecastArgsSchema (arguments req) =
        Inr \<lparr>latitude = lat, longitude = lon, forecast_days = Dec 7 0\<rparr>"
      using assms(2) by simp
    have seven: "Number_toString (Dec 7 0) = ''7''"
      by code_simp
    show "(''forecast_days'', ''7'') \<in> set (searchParams (forecastUrl lat lon (Dec 7 0)))"
      by (simp add: forecastUrl_def searchParams_append_def URL_new_def seven)
    show "fst (callTool E req) = [url_toString (forecastUrl lat lon (Dec 7 0))]"
      using assms(1) parsed
      by (simp add: forecast_dispatch reply_def getForecast_def request_def)
  }
  {
    fix n
    assume d: "map_of kvs ''forecast_days'' = Some (JNum n)"
      and r: "1 \<le> num_val n \<and> num_val n \<le> 16"
    have "zOptionalDefault (Dec 7 0) (zNumber 1 16 [''forecast_days''])
        (map_of kvs ''forecast_days'') = Inr n"
      using d r by (simp add: zOptionalDefault_def zNumber_in_range)
    from forecast_schema_accepts [OF la lo this]
    show parsed: "GetForecastArgsSchema (arguments req) =
        Inr \<lparr>latitude = lat, longitude = lon, forecast_days = n\<rparr>"
      using assms(2) by simp
    show "callTool E req = reply (getForecast E lat lon n)"
      using assms(1) parsed by (simp add: forecast_dispatch)
  }
qed

theorem forecast_days_default_and_bounds_witness:
  "name (toolRequest ''get_forecast'' (coordinateArgs (Dec 5252 (- 2)) (Dec 1341 (- 2)))) = ''get_forecast'' \<and>
   map_of (coordinateArgs (Dec 5252 (- 2)) (Dec 1341 (- 2))) ''forecast_days'' = None \<and>
   - 90 \<le> num_val (Dec 5252 (- 2)) \<and> num_val (Dec 5252 (- 2)) \<le> 90 \<and>
   - 180 \<le> num_val (Dec 1341 (- 2)) \<and> num_val (Dec 1341 (- 2)) \<le> 180 \<and>
   GetForecastArgsSchema (Some (JObj (coordinateArgs (Dec 5252 (- 2)) (Dec 1341 (- 2))))) =
     Inr \<lparr>latitude = Dec 5252 (- 2), longitude = Dec 1341 (- 2), forecast_days = Dec 7 0\<rparr> \<and>
   fst (callTool (mockEnv mockForecastBody)
          (toolRequest ''get_forecast'' (coordinateArgs (Dec 5252 (- 2)) (Dec 1341 (- 2))))) =
     [''https://api.open-meteo.com/v1/forecast?latitude=52.52&longitude=13.41&daily=temperature_2m_max%2Ctemperature_2m_min%2Cprecipitation_sum%2Cwind_speed_10m_max%2Cweather_code&forecast_days=7&timezone=auto''] \<and>
   num_val (Dec 0 0) < 1 \<and>
   (\<exists>issues. callTool (mockEnv mockForecastBody)
       (toolRequest ''get_forecast'' (forecastArgs (Dec 5252 (- 2)) (Dec 1341 (- 2)) (Dec 0 0))) =
     ([], Inl (InvalidArguments issues))) \<and>
   16 < num_val (Dec 17 0) \<and>
   (\<exists>issues. callTool (mockEnv mockForecastBody)
       (toolRequest ''get_forecast'' (forecastArgs (Dec 5252 (- 2)) (Dec 1341 (- 2)) (Dec 17 0))) =
     ([], Inl (InvalidArguments issues))) \<and>
   1 \<le> num_val (Dec 1 0) \<and> num_val (Dec 1 0) \<le> 16 \<and>
   GetForecastArgsSchema (Some (JObj (forecastArgs (Dec 5252 (- 2)) (Dec 1341 (- 2)) (Dec 1 0)))) =
     Inr \<lparr>latitude = Dec 5252 (- 2), longitude = Dec 1341 (- 2), forecast_days = Dec 1 0\<rparr> \<and>
   1 \<le> num_val (Dec 16 0) \<and> num_val (Dec 16 0) \<le> 16 \<and>
   GetForecastArgsSchema (Some (JObj (forecastArgs (Dec 5252 (- 2)) (Dec 1341 (- 2)) (Dec 16 0)))) =
     Inr \<lparr>latitude = Dec 5252 (- 2), longitude = Dec 1341 (- 2), forecast_days = Dec 16 0\<rparr>"
proof -
  let ?lat = "Dec 5252 (- 2)" and ?lon = "Dec 1341 (- 2)"
  let ?E = "mockEnv mockForecastBody"
  let ?plain = "coordinateArgs ?lat ?lon"
  let ?with = "\<lambda>n. forecastArgs ?lat ?lon n"
  have n: "\<And>kvs. name (toolRequest ''get_forecast'' kvs) = ''get_forecast''"
    and a: "\<And>kvs. arguments (toolRequest ''get_forecast'' kvs) = Some (JObj kvs)"
    by (simp_all add: toolRequest_def)
  have none: "map_of ?plain ''forecast_days'' = None"
    by (simp add: coordinateArgs_def)
  have some: "\<And>d. map_of (?with d) ''forecast_days'' = Some (JNum d)"
    by (simp add: forecastArgs_def coordinateArgs_def)
  have range: "- 90 \<le> num_val ?lat" "num_val ?lat \<le> 90" "- 180 \<le> num_val ?lon" "num_val ?lon \<le> 180"
    by (simp_all add: num_val_def)
  have coords: "map_of ?plain ''latitude'' = Some (JNum ?lat) \<and> - 90 \<le> num_val ?lat \<and>
      num_val ?lat \<le> 90 \<and> map_of ?plain ''longitude'' = Some (JNum ?lon) \<and>
      - 180 \<le> num_val ?lon \<and> num_val ?lon \<le> 180"
    using range by (simp add: coordinateArgs_def)
  have coords': "\<And>d. map_of (?with d) ''latitude'' = Some (JNum ?lat) \<and> - 90 \<le> num_val ?lat \<and>
      num_val ?lat \<le> 90 \<and> map_of (?with d) ''longitude'' = Some (JNum ?lon) \<and>
      - 180 \<le> num_val ?lon \<and> num_val ?lon \<le> 180"
    using range by (simp add: forecastArgs_def coordinateArgs_def)
  have u: "url_toString (forecastUrl ?lat ?lon (Dec 7 0)) =
      ''https://api.open-meteo.com/v1/forecast?latitude=52.52&longitude=13.41&daily=temperature_2m_max%2Ctemperature_2m_min%2Cprecipitation_sum%2Cwind_speed_10m_max%2Cweather_code&forecast_days=7&timezone=auto''"
    by (simp add: url_eval number_eval)
  have v0: "num_val (Dec 0 0) < 1" and v17: "16 < num_val (Dec 17 0)"
    and v1: "1 \<le> num_val (Dec 1 0)" "num_val (Dec 1 0) \<le> 16"
    and v16: "1 \<le> num_val (Dec 16 0)" "num_val (Dec 16 0) \<le> 16"
    by (simp_all add: num_val_def)
  from forecast_days_default_and_bounds
    [where req = "toolRequest ''get_forecast'' ?plain" and kvs = ?plain and lat = ?lat
       and lon = ?lon and E = ?E, OF n a] coords none
  have d1: "GetForecastArgsSchema (Some (JObj ?plain)) =
      Inr \<lparr>latitude = ?lat, longitude = ?lon, forecast_days = Dec 7 0\<rparr>"
    and d2: "fst (callTool ?E (toolRequest ''get_forecast'' ?plain)) =
      [url_toString (forecastUrl ?lat ?lon (Dec 7 0))]"
    unfolding a by blast+
  from forecast_days_default_and_bounds
    [where req = "toolRequest ''get_forecast'' (?with (Dec 0 0))" and kvs = "?with (Dec 0 0)"
       and lat = ?lat and lon = ?lon and E = ?E, OF n a] some v0
  have r0: "\<exists>issues. callTool ?E (toolRequest ''get_forecast'' (?with (Dec 0 0))) =
      ([], Inl (InvalidArguments issues))"
    by blast
  from forecast_days_default_and_bounds
    [where req = "toolRequest ''get_forecast'' (?with (Dec 17 0))" and kvs = "?with (Dec 17 0)"
       and lat = ?lat and lon = ?lon and E = ?E, OF n a] some v17
  have r17: "\<exists>issues. callTool ?E (toolRequest ''get_forecast'' (?with (Dec 17 0))) =
      ([], Inl (InvalidArguments issues))"
    by blast
  from forecast_days_default_and_bounds
    [where req = "toolRequest ''get_forecast'' (?with (Dec 1 0))" and kvs = "?with (Dec 1 0)"
       and lat = ?lat and lon = ?lon and E = ?E, OF n a]
    coords' [of "Dec 1 0"] some v1
  have k1: "GetForecastArgsSchema (Some (JObj (?with (Dec 1 0)))) =
      Inr \<lparr>latitude = ?lat, longitude = ?lon, forecast_days = Dec 1 0\<rparr>"
    unfolding a by blast
  from forecast_days_default_and_bounds
    [where req = "toolRequest ''get_forecast'' (?with (Dec 16 0))" and kvs = "?with (Dec 16 0)"
       and lat = ?lat and lon = ?lon and E = ?E, OF n a]
    coords' [of "Dec 16 0"] some v16
  have k16: "GetForecastArgsSchema (Some (JObj (?with (Dec 16 0)))) =
      Inr \<lparr>latitude = ?lat, longitude = ?lon, forecast_days = Dec 16 0\<rparr>"
    unfolding a by blast
  from n none range d1 d2 [unfolded u] v0 r0 v17 r17 v1 k1 v16 k16 show ?thesis
    by blast
qed

text \<open>
  C7. The URL of each tool has exactly the base path and the query parameters of the
  table of the specification, in the order the source appends them, and it is this URL,
  serialised, that the API function requests.
\<close>

theorem request_urls:
  "forecastUrl lat lon days =
     \<lparr>base = ''https://api.open-meteo.com/v1/forecast'',
      searchParams =
        [(''latitude'', Number_toString lat),
         (''longitude'', Number_toString lon),
         (''daily'',
          ''temperature_2m_max,temperature_2m_min,precipitation_sum,wind_speed_10m_max,weather_code''),
         (''forecast_days'', Number_toString days),
         (''timezone'', ''auto'')]\<rparr> \<and>
   currentWeatherUrl lat lon =
     \<lparr>base = ''https://api.open-meteo.com/v1/forecast'',
      searchParams =
        [(''latitude'', Number_toString lat),
         (''longitude'', Number_toString lon),
         (''current'',
          ''temperature_2m,relative_humidity_2m,precipitation,wind_speed_10m,wind_direction_10m,weather_code'')]\<rparr> \<and>
   geocodeUrl loc =
     \<lparr>base = ''https://geocoding-api.open-meteo.com/v1/search'',
      searchParams =
        [(''name'', loc), (''count'', ''5''), (''language'', ''en''), (''format'', ''json'')]\<rparr> \<and>
   fst (getForecast E lat lon days) = [url_toString (forecastUrl lat lon days)] \<and>
   fst (getCurrentWeather E lat lon) = [url_toString (currentWeatherUrl lat lon)] \<and>
   fst (geocodeLocation E loc) = [url_toString (geocodeUrl loc)]"
  by (simp add: forecastUrl_def currentWeatherUrl_def geocodeUrl_def searchParams_append_def
      URL_new_def getForecast_def getCurrentWeather_def geocodeLocation_def request_def)

section \<open>The forecast report\<close>

lemma toStringJ_printable: "printable v \<Longrightarrow> toStringJ v = Inr (textOf v)"
  by (cases "toStringJ v") (simp_all add: printable_def textOf_def)

lemma elementText_array:
  assumes "map_of d k = Some (JArr xs)" and "\<forall>v\<in>set xs. printable v"
  shows "elementText (Some (JObj d)) k i = Inr (shownAt xs i)"
  using assms
  by (simp add: elementText_def shownAt_def toString_def toStringJ_printable)

lemma elementText_beyond:
  assumes "map_of d k = Some (JArr xs)" and "length xs \<le> i"
  shows "elementText (Some (JObj d)) k i = Inr ''undefined''"
  using assms by (simp add: elementText_def toString_def)

lemma dayLines_arrays:
  assumes "map_of d ''time'' = Some (JArr ts)"
    and "map_of d ''temperature_2m_max'' = Some (JArr tmax)"
    and "map_of d ''temperature_2m_min'' = Some (JArr tmin)"
    and "map_of d ''precipitation_sum'' = Some (JArr ps)"
    and "map_of d ''wind_speed_10m_max'' = Some (JArr ws)"
    and "map_of d ''weather_code'' = Some (JArr wc)"
    and "\<forall>v\<in>set (ts @ tmax @ tmin @ ps @ ws @ wc). printable v"
  shows "dayLines (Some (JObj d)) i = Inr (specDayBlock ts tmax tmin ps ws wc i)"
proof -
  have "elementText (Some (JObj d)) ''time'' i = Inr (shownAt ts i)"
    and "elementText (Some (JObj d)) ''temperature_2m_max'' i = Inr (shownAt tmax i)"
    and "elementText (Some (JObj d)) ''temperature_2m_min'' i = Inr (shownAt tmin i)"
    and "elementText (Some (JObj d)) ''precipitation_sum'' i = Inr (shownAt ps i)"
    and "elementText (Some (JObj d)) ''wind_speed_10m_max'' i = Inr (shownAt ws i)"
    and "elementText (Some (JObj d)) ''weather_code'' i = Inr (shownAt wc i)"
    using assms by (simp_all add: elementText_array)
  then show ?thesis
    by (simp add: dayLines_def specDayBlock_def)
qed

lemma loopBound_array:
  "map_of d ''time'' = Some (JArr ts) \<Longrightarrow>
   loopBound stn (Some (JObj d)) = Inr (Some (natNumber (length ts)))"
  by (simp add: loopBound_def)

lemma lessThan_natNumber: "lessThan_num i (Some (natNumber n)) = (i < n)"
  by (simp add: lessThan_num_def natNumber_def num_val_def)

lemma forecastLoop_done:
  assumes "map_of d ''time'' = Some (JArr ts)" and "length ts \<le> i"
  shows "forecastLoop stn (Some (JObj d)) i result = Inr result"
  using assms
  by (simp add: forecastLoop.simps [of stn _ i result] loopBound_array lessThan_natNumber)

lemma forecastLoop_arrays:
  assumes "map_of d ''time'' = Some (JArr ts)"
    and "map_of d ''temperature_2m_max'' = Some (JArr tmax)"
    and "map_of d ''temperature_2m_min'' = Some (JArr tmin)"
    and "map_of d ''precipitation_sum'' = Some (JArr ps)"
    and "map_of d ''wind_speed_10m_max'' = Some (JArr ws)"
    and "map_of d ''weather_code'' = Some (JArr wc)"
    and "\<forall>v\<in>set (ts @ tmax @ tmin @ ps @ ws @ wc). printable v"
  shows "forecastLoop stn (Some (JObj d)) i result =
           Inr (result @ concat (map (specDayBlock ts tmax tmin ps ws wc) [i..<length ts]))"
proof (induction "length ts - i" arbitrary: i result)
  case 0
  then have "length ts \<le> i"
    by simp
  then show ?case
    using forecastLoop_done [OF assms(1)] by simp
next
  case (Suc m)
  then have less: "i < length ts" and rest: "m = length ts - (i + 1)"
    by simp_all
  have step: "forecastLoop stn (Some (JObj d)) i result =
      forecastLoop stn (Some (JObj d)) (i + 1) (result @ specDayBlock ts tmax tmin ps ws wc i)"
    using less
    by (simp add: forecastLoop.simps [of stn _ i result] loopBound_array [OF assms(1)]
        lessThan_natNumber dayLines_arrays [OF assms])
  have "[i..<length ts] = i # [i + 1..<length ts]"
    using less by (simp add: upt_conv_Cons)
  then show ?case
    using Suc.hyps(1) [OF rest] step by simp
qed

lemma formatForecast_arrays:
  assumes "map_of kvs ''daily'' = Some (JObj d)"
    and "toString (map_of kvs ''latitude'') = Inr lat"
    and "toString (map_of kvs ''longitude'') = Inr lon"
    and "map_of d ''time'' = Some (JArr ts)"
    and "map_of d ''temperature_2m_max'' = Some (JArr tmax)"
    and "map_of d ''temperature_2m_min'' = Some (JArr tmin)"
    and "map_of d ''precipitation_sum'' = Some (JArr ps)"
    and "map_of d ''wind_speed_10m_max'' = Some (JArr ws)"
    and "map_of d ''weather_code'' = Some (JArr wc)"
    and "\<forall>v\<in>set (ts @ tmax @ tmin @ ps @ ws @ wc). printable v"
  shows "formatForecast stn (JObj kvs) =
           Inr (''Weather Forecast for coordinates ('' @ lat @ '', '' @ lon @ '')\<newline>\<newline>'' @
                concat (map (specDayBlock ts tmax tmin ps ws wc) [0..<length ts]))"
  using assms(1-3) forecastLoop_arrays [OF assms(4-10)]
  by (simp add: formatForecast_def)

text \<open>
  C8. For every daily series returned by upstream (the five arrays of \<open>daily\<close>, their
  elements printable), the forecast report is the header line
  \<open>Weather Forecast for coordinates (<lat>, <lon>)\<close> and a blank line, followed by one day
  block per index of \<open>daily.time\<close> in upstream order, each with the Date, Temperature,
  Precipitation, Wind Speed and Weather Code lines; for an empty series the report is the
  header alone, with no day block.
\<close>

theorem formatForecast_layout:
  assumes "map_of kvs ''daily'' = Some (JObj d)"
    and "map_of d ''time'' = Some (JArr ts)"
    and "toString (map_of kvs ''latitude'') = Inr lat"
    and "toString (map_of kvs ''longitude'') = Inr lon"
  shows "(ts = [] \<longrightarrow>
            formatForecast stn (JObj kvs) =
              Inr (''Weather Forecast for coordinates ('' @ lat @ '', '' @ lon @ '')\<newline>\<newline>'')) \<and>
         (map_of d ''temperature_2m_max'' = Some (JArr tmax) \<and>
          map_of d ''temperature_2m_min'' = Some (JArr tmin) \<and>
          map_of d ''precipitation_sum'' = Some (JArr ps) \<and>
          map_of d ''wind_speed_10m_max'' = Some (JArr ws) \<and>
          map_of d ''weather_code'' = Some (JArr wc) \<and>
          (\<forall>v\<in>set (ts @ tmax @ tmin @ ps @ ws @ wc). printable v) \<longrightarrow>
            formatForecast stn (JObj kvs) =
              Inr (''Weather Forecast for coordinates ('' @ lat @ '', '' @ lon @ '')\<newline>\<newline>'' @
                   concat (map (specDayBlock ts tmax tmin ps ws wc) [0..<length ts])))"
proof (intro conjI impI)
  assume "ts = []"
  then have "forecastLoop stn (Some (JObj d)) 0 result = Inr result" for result
    using forecastLoop_done [OF assms(2), of 0 stn result] by simp
  then show "formatForecast stn (JObj kvs) =
      Inr (''Weather Forecast for coordinates ('' @ lat @ '', '' @ lon @ '')\<newline>\<newline>'')"
    using assms by (simp add: formatForecast_def)
next
  assume "map_of d ''temperature_2m_max'' = Some (JArr tmax) \<and>
      map_of d ''temperature_2m_min'' = Some (JArr tmin) \<and>
      map_of d ''precipitation_sum'' = Some (JArr ps) \<and>
      map_of d ''wind_speed_10m_max'' = Some (JArr ws) \<and>
      map_of d ''weather_code'' = Some (JArr wc) \<and>
      (\<forall>v\<in>set (ts @ tmax @ tmin @ ps @ ws @ wc). printable v)"
  then show "formatForecast stn (JObj kvs) =
      Inr (''Weather Forecast for coordinates ('' @ lat @ '', '' @ lon @ '')\<newline>\<newline>'' @
           concat (map (specDayBlock ts tmax tmin ps ws wc) [0..<length ts]))"
    using formatForecast_arrays [OF assms(1,3,4,2), of tmax tmin ps ws wc stn] by blast
qed

lemmas format_eval = specDayBlock_def shownAt_def textOf_def toString_def fieldText_def
  elementText_def dayLines_def loopBound_def lessThan_num_def natNumber_def num_val_def

theorem formatForecast_layout_witness:
  "map_of mockForecastFields ''daily'' = Some (JObj mockDaily) \<and>
   map_of mockDaily ''time'' = Some (JArr [JStr ''2024-01-01'', JStr ''2024-01-02'']) \<and>
   toString (map_of mockForecastFields ''latitude'') = Inr ''52.52'' \<and>
   toString (map_of mockForecastFields ''longitude'') = Inr ''13.41'' \<and>
   formatForecast (\<lambda>s. None) (JObj mockForecastFields) =
     Inr (''Weather Forecast for coordinates (52.52, 13.41)\<newline>\<newline>'' @
          ''Date: 2024-01-01\<newline>'' @
          ''  Temperature: 5.2'' @ degreeSign @ ''C max, -1.3'' @ degreeSign @ ''C min\<newline>'' @
          ''  Precipitation: 0 mm\<newline>'' @
          ''  Wind Speed: 15 km/h max\<newline>'' @
          ''  Weather Code: 3\<newline>\<newline>'' @
          ''Date: 2024-01-02\<newline>'' @
          ''  Temperature: 6'' @ degreeSign @ ''C max, 0'' @ degreeSign @ ''C min\<newline>'' @
          ''  Precipitation: 2.4 mm\<newline>'' @
          ''  Wind Speed: 20.3 km/h max\<newline>'' @
          ''  Weather Code: 61\<newline>\<newline>'')"
proof -
  let ?ts = "[JStr ''2024-01-01'', JStr ''2024-01-02'']"
  let ?tmax = "[JNum (Dec 52 (- 1)), JNum (Dec 6 0)]"
  let ?tmin = "[JNum (Dec (- 13) (- 1)), JNum (Dec 0 0)]"
  let ?ps = "[JNum (Dec 0 0), JNum (Dec 24 (- 1))]"
  let ?ws = "[JNum (Dec 15 0), JNum (Dec 203 (- 1))]"
  let ?wc = "[JNum (Dec 3 0), JNum (Dec 61 0)]"
  have daily: "map_of mockForecastFields ''daily'' = Some (JObj mockDaily)"
    by (simp add: mockForecastFields_def)
  have time: "map_of mockDaily ''time'' = Some (JArr ?ts)"
    by (simp add: mockDaily_def)
  have lat: "toString (map_of mockForecastFields ''latitude'') = Inr ''52.52''"
    and lon: "toString (map_of mockForecastFields ''longitude'') = Inr ''13.41''"
    by (simp_all add: mockForecastFields_def toString_def number_eval)
  have series: "map_of mockDaily ''temperature_2m_max'' = Some (JArr ?tmax) \<and>
      map_of mockDaily ''temperature_2m_min'' = Some (JArr ?tmin) \<and>
      map_of mockDaily ''precipitation_sum'' = Some (JArr ?ps) \<and>
      map_of mockDaily ''wind_speed_10m_max'' = Some (JArr ?ws) \<and>
      map_of mockDaily ''weather_code'' = Some (JArr ?wc) \<and>
      (\<forall>v\<in>set (?ts @ ?tmax @ ?tmin @ ?ps @ ?ws @ ?wc). printable v)"
    by (simp add: mockDaily_def printable_def)
  have blocks: "concat (map (specDayBlock ?ts ?tmax ?tmin ?ps ?ws ?wc) [0..<length ?ts]) =
      ''Date: 2024-01-01\<newline>'' @
      ''  Temperature: 5.2'' @ degreeSign @ ''C max, -1.3'' @ degreeSign @ ''C min\<newline>'' @
      ''  Precipitation: 0 mm\<newline>'' @
      ''  Wind Speed: 15 km/h max\<newline>'' @
      ''  Weather Code: 3\<newline>\<newline>'' @
      ''Date: 2024-01-02\<newline>'' @
      ''  Temperature: 6'' @ degreeSign @ ''C max, 0'' @ degreeSign @ ''C min\<newline>'' @
      ''  Precipitation: 2.4 mm\<newline>'' @
      ''  Wind Speed: 20.3 km/h max\<newline>'' @
      ''  Weather Code: 61\<newline>\<newline>''"
    by (simp add: format_eval number_eval)
  from formatForecast_layout
    [OF daily time lat lon, where tmax = ?tmax and tmin = ?tmin and ps = ?ps and ws = ?ws
       and wc = ?wc and stn = "\<lambda>s. None"] series
  have "formatForecast (\<lambda>s. None) (JObj mockForecastFields) =
      Inr (''Weather Forecast for coordinates ('' @ ''52.52'' @ '', '' @ ''13.41'' @ '')\<newline>\<newline>'' @
           concat (map (specDayBlock ?ts ?tmax ?tmin ?ps ?ws ?wc) [0..<length ?ts]))"
    by blast
  then have "formatForecast (\<lambda>s. None) (JObj mockForecastFields) =
      Inr (''Weather Forecast for coordinates (52.52, 13.41)\<newline>\<newline>'' @
          ''Date: 2024-01-01\<newline>'' @
          ''  Temperature: 5.2'' @ degreeSign @ ''C max, -1.3'' @ degreeSign @ ''C min\<newline>'' @
          ''  Precipitation: 0 mm\<newline>'' @
          ''  Wind Speed: 15 km/h max\<newline>'' @
          ''  Weather Code: 3\<newline>\<newline>'' @
          ''Date: 2024-01-02\<newline>'' @
          ''  Temperature: 6'' @ degreeSign @ ''C max, 0'' @ degreeSign @ ''C min\<newline>'' @
          ''  Precipitation: 2.4 mm\<newline>'' @
          ''  Wind Speed: 20.3 km/h max\<newline>'' @
          ''  Weather Code: 61\<newline>\<newline>'')"
    unfolding blocks by simp
  with daily time lat lon show ?thesis
    by blast
qed

section \<open>Reading the query back\<close>

lemma below_16:
  "d < (16 :: nat) \<Longrightarrow>
   d = 0 \<or> d = 1 \<or> d = 2 \<or> d = 3 \<or> d = 4 \<or> d = 5 \<or> d = 6 \<or> d = 7 \<or>
   d = 8 \<or> d = 9 \<or> d = 10 \<or> d = 11 \<or> d = 12 \<or> d = 13 \<or> d = 14 \<or> d = 15"
  by arith

lemma hexval_hex_char: "d < 16 \<Longrightarrow> hexval (hex_char d) = Some d"
  by (drule below_16) (auto simp: hexval_def hex_char_def)

lemma hex_char_plain:
  "d < 16 \<Longrightarrow> hex_char d \<noteq> CHR ''&'' \<and> hex_char d \<noteq> CHR ''='' \<and> hex_char d \<noteq> CHR ''#''"
  by (drule below_16) (auto simp: hex_char_def)

lemma percentDecode_percent:
  assumes "b < 256"
  shows "percentDecode (percent b @ rest) = b # percentDecode rest"
proof -
  have "b div 16 < 16" and "b mod 16 < 16"
    using assms by simp_all
  then show ?thesis
    by (simp add: percent_def hexval_hex_char)
qed

lemma utf8_bytes: "n < 256 \<Longrightarrow> b \<in> set (utf8 n) \<Longrightarrow> b < 256"
  by (auto simp: utf8_def split: if_splits)

lemma percentDecode_encodeChar:
  "percentDecode (encodeChar c @ rest) = utf8 (of_char c) @ percentDecode rest"
proof -
  let ?n = "of_char c :: nat"
  have n: "?n < 256"
    by simp
  consider (space) "?n = 32" | (plain) "?n \<noteq> 32" "unreserved ?n"
    | (escaped) "?n \<noteq> 32" "\<not> unreserved ?n"
    by blast
  then show ?thesis
  proof cases
    case space
    then show ?thesis
      by (simp add: encodeChar_def utf8_def)
  next
    case plain
    then have "c \<noteq> CHR ''+''" and "c \<noteq> CHR ''%''" and "?n < 128"
      by (auto simp: unreserved_def)
    with plain show ?thesis
      by (simp add: encodeChar_def utf8_def)
  next
    case escaped
    show ?thesis
    proof (cases "?n < 128")
      case True
      with escaped n show ?thesis
        by (simp add: encodeChar_def Let_def utf8_def percentDecode_percent)
    next
      case False
      have "192 + ?n div 64 < 256" and "128 + ?n mod 64 < 256"
        using n by arith+
      with False escaped show ?thesis
        by (simp add: encodeChar_def Let_def utf8_def percentDecode_percent)
    qed
  qed
qed

lemma percentDecode_urlencode:
  "percentDecode (urlencode s @ rest) = concat (map (\<lambda>c. utf8 (of_char c)) s) @ percentDecode rest"
  by (induction s) (simp_all add: urlencode_Nil urlencode_Cons percentDecode_encodeChar)

lemma utf8Decode_utf8:
  "utf8Decode (utf8 (of_char c) @ bs) = map_option (Cons c) (utf8Decode bs)"
proof (cases "(of_char c :: nat) < 128")
  case True
  then show ?thesis
    by (simp add: utf8_def)
next
  case False
  let ?n = "of_char c :: nat"
  have n: "?n < 256"
    by simp
  have hi: "194 \<le> 192 + ?n div 64" "192 + ?n div 64 \<le> 195"
    using False n by arith+
  have lo: "128 + ?n mod 64 < 192"
    by simp
  have "(192 + ?n div 64 - 192) * 64 + (128 + ?n mod 64 - 128) = ?n"
    by simp
  with False hi lo show ?thesis
    by (simp add: utf8_def)
qed

lemma utf8Decode_all: "utf8Decode (concat (map (\<lambda>c. utf8 (of_char c)) s)) = Some s"
  by (induction s) (simp_all add: utf8Decode_utf8)

lemma urldecode_urlencode: "urldecode (urlencode s) = Some s"
  using percentDecode_urlencode [of s "[]"] by (simp add: urldecode_def utf8Decode_all)

lemma encodeChar_plain:
  assumes "x \<in> set (encodeChar c)"
  shows "x \<noteq> CHR ''&'' \<and> x \<noteq> CHR ''='' \<and> x \<noteq> CHR ''#''"
proof -
  let ?n = "of_char c :: nat"
  have n: "?n < 256"
    by simp
  consider (space) "?n = 32" | (plain) "?n \<noteq> 32" "unreserved ?n"
    | (escaped) "?n \<noteq> 32" "\<not> unreserved ?n"
    by blast
  then show ?thesis
  proof cases
    case space
    with assms show ?thesis
      by (simp add: encodeChar_def)
  next
    case plain
    with assms have "x = c"
      by (simp add: encodeChar_def)
    with plain show ?thesis
      by (auto simp: unreserved_def)
  next
    case escaped
    with assms obtain b where b: "b \<in> set (utf8 ?n)" and x: "x \<in> set (percent b)"
      by (auto simp: encodeChar_def)
    from b n have "b < 256"
      by (rule utf8_bytes [rotated])
    then have "b div 16 < 16" and "b mod 16 < 16"
      by simp_all
    with x show ?thesis
      using hex_char_plain [of "b div 16"] hex_char_plain [of "b mod 16"]
      by (auto simp: percent_def)
  qed
qed

lemma urlencode_plain:
  "x \<in> set (urlencode s) \<Longrightarrow> x \<noteq> CHR ''&'' \<and> x \<noteq> CHR ''='' \<and> x \<noteq> CHR ''#''"
  by (auto simp: urlencode_def dest: encodeChar_plain)

lemma splitOn_Cons:
  "splitOn c (x # xs) =
     (if x = c then [] # splitOn c xs else (x # hd (splitOn c xs)) # tl (splitOn c xs))"
  by (simp add: splitOn_def)

lemma splitOn_whole: "c \<notin> set a \<Longrightarrow> splitOn c a = [a]"
  by (induction a) (auto simp: splitOn_Cons splitOn_def)

lemma splitOn_first: "c \<notin> set a \<Longrightarrow> splitOn c (a @ c # rest) = a # splitOn c rest"
  by (induction a) (auto simp: splitOn_Cons)

lemma parsePair_encoded: "parsePair (urlencode k @ ''='' @ urlencode v) = Some (k, v)"
proof -
  have k: "\<And>x. x \<in> set (urlencode k) \<Longrightarrow> x \<noteq> CHR ''=''"
    using urlencode_plain by blast
  have "takeWhile (\<lambda>x. x \<noteq> CHR ''='') (urlencode k @ CHR ''='' # urlencode v) = urlencode k"
    using k by (simp add: takeWhile_append2)
  moreover have "dropWhile (\<lambda>x. x \<noteq> CHR ''='') (urlencode k @ CHR ''='' # urlencode v) =
      CHR ''='' # urlencode v"
    using k by (simp add: dropWhile_append2)
  ultimately show ?thesis
    by (simp add: parsePair_def urldecode_urlencode)
qed

lemma pair_plain:
  "x \<in> set (urlencode k @ ''='' @ urlencode v) \<Longrightarrow> x \<noteq> CHR ''&'' \<and> x \<noteq> CHR ''#''"
  using urlencode_plain [of x k] urlencode_plain [of x v] by auto

lemma serializeParams_plain: "x \<in> set (serializeParams ps) \<Longrightarrow> x \<noteq> CHR ''#''"
  by (induction ps rule: serializeParams.induct) (auto dest: urlencode_plain)

lemma parseQuery_serializeParams: "parseQuery (serializeParams ps) = Some ps"
proof (induction ps rule: serializeParams.induct)
  case 1
  show ?case
    by (simp add: parseQuery_def splitOn_def)
next
  case (2 k v)
  have "CHR ''&'' \<notin> set (urlencode k @ ''='' @ urlencode v)"
    using pair_plain by blast
  then have "splitOn (CHR ''&'') (urlencode k @ ''='' @ urlencode v) =
      [urlencode k @ ''='' @ urlencode v]"
    by (rule splitOn_whole)
  then show ?case
    using parsePair_encoded [of k v] by (simp add: parseQuery_def)
next
  case (3 k v p ps)
  let ?piece = "urlencode k @ ''='' @ urlencode v"
  have "CHR ''&'' \<notin> set ?piece"
    using pair_plain by blast
  then have "splitOn (CHR ''&'') (?piece @ CHR ''&'' # serializeParams (p # ps)) =
      ?piece # splitOn (CHR ''&'') (serializeParams (p # ps))"
    by (rule splitOn_first)
  then show ?case
    using parsePair_encoded [of k v] "3.IH" by (simp add: parseQuery_def)
qed

lemma queryOf_url_toString:
  assumes "CHR ''?'' \<notin> set (base u)" and "searchParams u \<noteq> []"
  shows "queryOf (url_toString u) = serializeParams (searchParams u)"
proof -
  have b: "\<And>x. x \<in> set (base u) \<Longrightarrow> x \<noteq> CHR ''?''"
    using assms(1) by blast
  have "dropWhile (\<lambda>x. x \<noteq> CHR ''?'') (base u @ CHR ''?'' # serializeParams (searchParams u)) =
      CHR ''?'' # serializeParams (searchParams u)"
    using b by (simp add: dropWhile_append2)
  moreover have "takeWhile (\<lambda>x. x \<noteq> CHR ''#'') (serializeParams (searchParams u)) =
      serializeParams (searchParams u)"
    using serializeParams_plain by (simp add: takeWhile_eq_all_conv)
  ultimately show ?thesis
    using assms(2) by (simp add: queryOf_def url_toString_def)
qed

lemma searchParams_get_url_toString:
  assumes "CHR ''?'' \<notin> set (base u)" and "searchParams u \<noteq> []"
  shows "searchParams_get (url_toString u) k = map_of (searchParams u) k"
  using queryOf_url_toString [OF assms]
  by (simp add: searchParams_get_def parseQuery_serializeParams)

section \<open>Reading a printed number back\<close>

lemma num_val_power: "num_val (Dec m e) = of_int m * 10 powi e"
proof (cases "0 \<le> e")
  case True
  then show ?thesis
    by (simp add: num_val_def power_int_def)
next
  case False
  have "inverse (10 :: rat) ^ nat (- e) = inverse (10 ^ nat (- e))"
    by (rule power_inverse)
  then have "(10 :: rat) powi e = inverse (10 ^ nat (- e))"
    using False by (simp only: power_int_def if_False)
  moreover have "num_val (Dec m e) = of_int m / 10 ^ nat (- e)"
    using False by (simp add: num_val_def)
  ultimately show ?thesis
    by (simp only: divide_inverse)
qed

lemma stripZeros_value:
  "stripZeros s e = (s', e') \<Longrightarrow> (of_nat s' :: rat) * 10 powi e' = of_nat s * 10 powi e"
proof (induction s e rule: stripZeros.induct)
  case (1 s e)
  show ?case
  proof (cases "s \<noteq> 0 \<and> s mod 10 = 0")
    case True
    then have "stripZeros (s div 10) (e + 1) = (s', e')"
      using "1.prems" by (simp add: stripZeros.simps [of s e])
    then have "(of_nat s' :: rat) * 10 powi e' = of_nat (s div 10) * 10 powi (e + 1)"
      using "1.IH" True by blast
    also have "\<dots> = of_nat (s div 10 * 10) * 10 powi e"
      by (simp add: power_int_add_1)
    also have "s div 10 * 10 = s"
      using True by presburger
    finally show ?thesis .
  next
    case False
    then show ?thesis
      using "1.prems" by (auto simp: stripZeros.simps [of s e])
  qed
qed

lemma below_10:
  "d < (10 :: nat) \<Longrightarrow>
   d = 0 \<or> d = 1 \<or> d = 2 \<or> d = 3 \<or> d = 4 \<or> d = 5 \<or> d = 6 \<or> d = 7 \<or> d = 8 \<or> d = 9"
  by arith

lemma digit_char_digit: "d < 10 \<Longrightarrow> isDigit (digit_char d) \<and> digitVal (digit_char d) = d"
  by (drule below_10) (auto simp: isDigit_def digitVal_def digit_char_def)

lemma natOfDigits_Nil: "natOfDigits [] = 0"
  by (simp add: natOfDigits_def)

lemma natOfDigits_snoc: "natOfDigits (ds @ [c]) = 10 * natOfDigits ds + digitVal c"
  by (simp add: natOfDigits_def)

lemma natOfDigits_append:
  "natOfDigits (xs @ ys) = natOfDigits xs * 10 ^ length ys + natOfDigits ys"
proof (induction ys rule: rev_induct)
  case Nil
  show ?case
    by (simp add: natOfDigits_Nil)
next
  case (snoc y ys)
  have "natOfDigits (xs @ ys @ [y]) = 10 * natOfDigits (xs @ ys) + digitVal y"
    using natOfDigits_snoc [of "xs @ ys" y] by simp
  then show ?case
    using snoc.IH by (simp add: natOfDigits_snoc algebra_simps)
qed

lemma natOfDigits_zeros: "natOfDigits (replicate j (CHR ''0'')) = 0"
proof (induction j)
  case 0
  show ?case
    by (simp add: natOfDigits_Nil)
next
  case (Suc j)
  have "replicate (Suc j) (CHR ''0'') = replicate j (CHR ''0'') @ [CHR ''0'']"
    by (simp add: replicate_append_same)
  then show ?case
    using Suc.IH by (simp only: natOfDigits_snoc) (simp add: digitVal_def)
qed

lemma digitsOf_digits:
  "list_all isDigit (digitsOf n) \<and> digitsOf n \<noteq> [] \<and> natOfDigits (digitsOf n) = n"
proof (induction n rule: digitsOf.induct)
  case (1 n)
  show ?case
  proof (cases "n < 10")
    case True
    then show ?thesis
      using digit_char_digit [of n] natOfDigits_snoc [of "[]"]
      by (simp add: digitsOf.simps [of n] natOfDigits_Nil)
  next
    case False
    then have "list_all isDigit (digitsOf (n div 10)) \<and> digitsOf (n div 10) \<noteq> [] \<and>
        natOfDigits (digitsOf (n div 10)) = n div 10"
      using "1.IH" by simp
    moreover have "n mod 10 < 10"
      by simp
    ultimately show ?thesis
      using False digit_char_digit [of "n mod 10"]
      by (simp add: digitsOf.simps [of n] natOfDigits_snoc)
  qed
qed

lemma isDigit_plain:
  "isDigit c \<Longrightarrow>
   c \<noteq> CHR ''e'' \<and> c \<noteq> CHR ''E'' \<and> c \<noteq> CHR ''.'' \<and> c \<noteq> CHR ''-'' \<and> c \<noteq> CHR ''+''"
  by (auto simp: isDigit_def)

lemma isDigit_zero: "isDigit (CHR ''0'')"
  by (simp add: isDigit_def)

lemma digits_plain:
  assumes "list_all isDigit ds" and "x \<in> set ds"
  shows "x \<noteq> CHR ''e'' \<and> x \<noteq> CHR ''E'' \<and> x \<noteq> CHR ''.''"
  using assms isDigit_plain [of x] by (simp add: list_all_iff)

lemma parseSigned_exponent:
  "parseSigned ((if 0 \<le> j then ''+'' else ''-'') @ digitsOf (nat \<bar>j\<bar>)) = Some j"
proof (cases "0 \<le> j")
  case True
  then have "nat \<bar>j\<bar> = nat j"
    by simp
  with True show ?thesis
    using digitsOf_digits [of "nat j"] by (simp add: parseSigned_def)
next
  case False
  then have "nat \<bar>j\<bar> = nat (- j)"
    by simp
  with False show ?thesis
    using digitsOf_digits [of "nat (- j)"] by (simp add: parseSigned_def)
qed

text \<open>A mantissa of digits around an optional point, with an optional exponent.\<close>

lemma mantissa_whole:
  assumes "list_all isDigit ip"
  shows "takeWhile (\<lambda>x. x \<noteq> CHR ''.'') ip = ip"
    and "dropWhile (\<lambda>x. x \<noteq> CHR ''.'') ip = []"
  using assms digits_plain [OF assms] by (simp_all add: takeWhile_eq_all_conv)

lemma mantissa_point:
  assumes "list_all isDigit ip"
  shows "takeWhile (\<lambda>x. x \<noteq> CHR ''.'') (ip @ CHR ''.'' # fp) = ip"
    and "dropWhile (\<lambda>x. x \<noteq> CHR ''.'') (ip @ CHR ''.'' # fp) = CHR ''.'' # fp"
proof -
  have "\<And>x. x \<in> set ip \<Longrightarrow> x \<noteq> CHR ''.''"
    using digits_plain [OF assms] by blast
  then show "takeWhile (\<lambda>x. x \<noteq> CHR ''.'') (ip @ CHR ''.'' # fp) = ip"
    and "dropWhile (\<lambda>x. x \<noteq> CHR ''.'') (ip @ CHR ''.'' # fp) = CHR ''.'' # fp"
    by (simp_all add: takeWhile_append2 dropWhile_append2)
qed

lemma exponent_none:
  assumes "\<And>x. x \<in> set mant \<Longrightarrow> x \<noteq> CHR ''e'' \<and> x \<noteq> CHR ''E''"
  shows "takeWhile (\<lambda>x. x \<noteq> CHR ''e'' \<and> x \<noteq> CHR ''E'') mant = mant"
    and "dropWhile (\<lambda>x. x \<noteq> CHR ''e'' \<and> x \<noteq> CHR ''E'') mant = []"
  using assms by (simp_all add: takeWhile_eq_all_conv)

lemma exponent_some:
  assumes "\<And>x. x \<in> set mant \<Longrightarrow> x \<noteq> CHR ''e'' \<and> x \<noteq> CHR ''E''"
  shows "takeWhile (\<lambda>x. x \<noteq> CHR ''e'' \<and> x \<noteq> CHR ''E'') (mant @ CHR ''e'' # sx) = mant"
    and "dropWhile (\<lambda>x. x \<noteq> CHR ''e'' \<and> x \<noteq> CHR ''E'') (mant @ CHR ''e'' # sx) = CHR ''e'' # sx"
  using assms by (simp_all add: takeWhile_append2 dropWhile_append2)

lemma parseUnsigned_integer:
  assumes "list_all isDigit ip" and "ip \<noteq> []"
  shows "parseUnsigned ip = Some (natOfDigits ip, 0)"
proof -
  have e: "\<And>x. x \<in> set ip \<Longrightarrow> x \<noteq> CHR ''e'' \<and> x \<noteq> CHR ''E''"
    using digits_plain [OF assms(1)] by blast
  show ?thesis
    using assms
    by (simp only: parseUnsigned_def exponent_none [OF e] mantissa_whole [OF assms(1)] Let_def)
      simp
qed

lemma parseUnsigned_fraction:
  assumes "list_all isDigit ip" and "list_all isDigit fp" and "ip @ fp \<noteq> []"
  shows "parseUnsigned (ip @ CHR ''.'' # fp) = Some (natOfDigits (ip @ fp), - int (length fp))"
proof -
  have e: "\<And>x. x \<in> set (ip @ CHR ''.'' # fp) \<Longrightarrow> x \<noteq> CHR ''e'' \<and> x \<noteq> CHR ''E''"
    using digits_plain [OF assms(1)] digits_plain [OF assms(2)] by auto
  show ?thesis
    using assms
    by (simp only: parseUnsigned_def exponent_none [OF e] mantissa_point [OF assms(1)] Let_def)
      simp
qed

lemma parseUnsigned_integer_exponent:
  assumes "list_all isDigit ip" and "ip \<noteq> []" and "parseSigned sx = Some j"
  shows "parseUnsigned (ip @ CHR ''e'' # sx) = Some (natOfDigits ip, j)"
proof -
  have e: "\<And>x. x \<in> set ip \<Longrightarrow> x \<noteq> CHR ''e'' \<and> x \<noteq> CHR ''E''"
    using digits_plain [OF assms(1)] by blast
  show ?thesis
    using assms
    by (simp only: parseUnsigned_def exponent_some [OF e] mantissa_whole [OF assms(1)] Let_def)
      simp
qed

lemma parseUnsigned_fraction_exponent:
  assumes "list_all isDigit ip" and "list_all isDigit fp" and "ip @ fp \<noteq> []"
    and "parseSigned sx = Some j"
  shows "parseUnsigned ((ip @ CHR ''.'' # fp) @ CHR ''e'' # sx) =
           Some (natOfDigits (ip @ fp), j - int (length fp))"
proof -
  have e: "\<And>x. x \<in> set (ip @ CHR ''.'' # fp) \<Longrightarrow> x \<noteq> CHR ''e'' \<and> x \<noteq> CHR ''E''"
    using digits_plain [OF assms(1)] digits_plain [OF assms(2)] by auto
  show ?thesis
    using assms
    by (simp only: parseUnsigned_def exponent_some [OF e] mantissa_point [OF assms(1)] Let_def)
      simp
qed

text \<open>The text of a number is an optional sign before the layout of its digits.\<close>

lemma Number_toString_zero: "Number_toString (Dec 0 e) = ''0''"
  by (simp add: Number_toString_def)

lemma Number_toString_body:
  assumes "m \<noteq> 0" and "stripZeros (nat \<bar>m\<bar>) e = (s, e')"
  shows "Number_toString (Dec m e) =
           (if m < 0 then ''-'' else '''') @
           decimalBody (digitsOf s) (int (length (digitsOf s)) + e')"
  using assms by (simp add: Number_toString_def decimalBody_def Let_def)

lemma decimalBody_hd:
  assumes "D \<noteq> []"
  shows "decimalBody D n \<noteq> [] \<and> (hd (decimalBody D n) = hd D \<or> hd (decimalBody D n) = CHR ''0'')"
proof -
  have t: "\<And>j. 0 < j \<Longrightarrow> take j D \<noteq> [] \<and> hd (take j D) = hd D"
    using assms by (simp add: hd_take)
  have "0 < n \<Longrightarrow> take (nat n) D \<noteq> [] \<and> hd (take (nat n) D) = hd D"
    using t [of "nat n"] by simp
  moreover have "take 1 D \<noteq> [] \<and> hd (take 1 D) = hd D"
    using t [of 1] by simp
  ultimately show ?thesis
    using assms by (simp add: decimalBody_def Let_def hd_append del: take_eq_Nil)
qed

lemma zeros_digits: "list_all isDigit (replicate j (CHR ''0''))"
  by (simp add: list_all_iff isDigit_zero)

lemma natOfDigits_leading_zeros:
  "natOfDigits (''0'' @ replicate j (CHR ''0'') @ D) = natOfDigits D"
proof -
  have "''0'' @ replicate j (CHR ''0'') @ D = replicate (Suc j) (CHR ''0'') @ D"
    by simp
  then show ?thesis
    by (simp only: natOfDigits_append [of "replicate (Suc j) (CHR ''0'')" D] natOfDigits_zeros)
qed

text \<open>
  Read back, each of the five layouts has the value of its digits at the position of
  the point.
\<close>

lemma parseUnsigned_decimalBody:
  assumes d: "list_all isDigit D" and ne: "D \<noteq> []"
  shows "\<exists>a b. parseUnsigned (decimalBody D n) = Some (a, b) \<and>
           (of_nat a :: rat) * 10 powi b = of_nat (natOfDigits D) * 10 powi (n - int (length D))"
proof -
  let ?k = "int (length D)"
  let ?ex = "(if 0 \<le> n - 1 then ''+'' else ''-'') @ digitsOf (nat \<bar>n - 1\<bar>)"
  have ex: "parseSigned ?ex = Some (n - 1)"
    by (rule parseSigned_exponent)
  consider (whole) "- 5 \<le> n" "n \<le> 21" "?k \<le> n"
    | (point) "- 5 \<le> n" "n \<le> 21" "n < ?k" "0 < n"
    | (small) "- 5 \<le> n" "n \<le> 21" "n < ?k" "n \<le> 0"
    | (exp1) "\<not> (- 5 \<le> n \<and> n \<le> 21)" "?k = 1"
    | (expk) "\<not> (- 5 \<le> n \<and> n \<le> 21)" "?k \<noteq> 1"
    by linarith
  then show ?thesis
  proof cases
    case whole
    let ?j = "nat (n - ?k)"
    have body: "decimalBody D n = D @ replicate ?j (CHR ''0'')"
      using whole by (simp add: decimalBody_def Let_def)
    have "parseUnsigned (D @ replicate ?j (CHR ''0'')) =
        Some (natOfDigits (D @ replicate ?j (CHR ''0'')), 0)"
      using d ne zeros_digits [of ?j] by (intro parseUnsigned_integer) simp_all
    then have p: "parseUnsigned (decimalBody D n) = Some (natOfDigits D * 10 ^ ?j, 0)"
      by (simp add: body natOfDigits_append natOfDigits_zeros)
    have "n - ?k = int ?j"
      using whole by simp
    then have "(10 :: rat) powi (n - ?k) = 10 ^ ?j"
      by (metis power_int_of_nat)
    then have "(of_nat (natOfDigits D * 10 ^ ?j) :: rat) * 10 powi 0 =
        of_nat (natOfDigits D) * 10 powi (n - ?k)"
      by simp
    with p show ?thesis
      by blast
  next
    case point
    let ?ip = "take (nat n) D" and ?fp = "drop (nat n) D"
    have body: "decimalBody D n = ?ip @ CHR ''.'' # ?fp"
      using point by (simp add: decimalBody_def Let_def)
    have dig: "list_all isDigit ?ip" "list_all isDigit ?fp"
      using d by (auto simp: list_all_iff dest: in_set_takeD in_set_dropD)
    have "?ip @ ?fp \<noteq> []"
      using ne by simp
    with dig have "parseUnsigned (?ip @ CHR ''.'' # ?fp) =
        Some (natOfDigits (?ip @ ?fp), - int (length ?fp))"
      by (rule parseUnsigned_fraction)
    moreover have "- int (length ?fp) = n - ?k"
      using point by simp
    ultimately have "parseUnsigned (decimalBody D n) = Some (natOfDigits D, n - ?k)"
      by (simp add: body)
    then show ?thesis
      by blast
  next
    case small
    let ?z = "replicate (nat (- n)) (CHR ''0'')"
    have body: "decimalBody D n = ''0'' @ CHR ''.'' # (?z @ D)"
      using small by (simp add: decimalBody_def Let_def)
    have "list_all isDigit ''0''" and "list_all isDigit (?z @ D)" and "''0'' @ (?z @ D) \<noteq> []"
      using d zeros_digits [of "nat (- n)"] by (simp_all add: isDigit_zero)
    then have "parseUnsigned (''0'' @ CHR ''.'' # (?z @ D)) =
        Some (natOfDigits (''0'' @ (?z @ D)), - int (length (?z @ D)))"
      by (rule parseUnsigned_fraction)
    moreover have "- int (length (?z @ D)) = n - ?k"
      using small by simp
    moreover have "natOfDigits (''0'' @ (?z @ D)) = natOfDigits D"
      by (rule natOfDigits_leading_zeros)
    ultimately have "parseUnsigned (decimalBody D n) = Some (natOfDigits D, n - ?k)"
      by (simp only: body)
    then show ?thesis
      by blast
  next
    case exp1
    have body: "decimalBody D n = D @ CHR ''e'' # ?ex"
      using exp1 by (auto simp: decimalBody_def Let_def)
    have "parseUnsigned (D @ CHR ''e'' # ?ex) = Some (natOfDigits D, n - 1)"
      using d ne ex by (rule parseUnsigned_integer_exponent)
    with exp1 have "parseUnsigned (decimalBody D n) = Some (natOfDigits D, n - ?k)"
      by (simp only: body)
    then show ?thesis
      by blast
  next
    case expk
    let ?ip = "take 1 D" and ?fp = "drop 1 D"
    have body: "decimalBody D n = (?ip @ CHR ''.'' # ?fp) @ CHR ''e'' # ?ex"
      using expk by (auto simp: decimalBody_def Let_def)
    have dig: "list_all isDigit ?ip" "list_all isDigit ?fp"
      using d by (auto simp: list_all_iff dest: in_set_takeD in_set_dropD)
    have "?ip @ ?fp \<noteq> []"
      using ne by simp
    with dig have "parseUnsigned ((?ip @ CHR ''.'' # ?fp) @ CHR ''e'' # ?ex) =
        Some (natOfDigits (?ip @ ?fp), n - 1 - int (length ?fp))"
      using ex by (intro parseUnsigned_fraction_exponent)
    moreover have "n - 1 - int (length ?fp) = n - ?k"
      using ne by (cases D) simp_all
    ultimately have "parseUnsigned (decimalBody D n) = Some (natOfDigits D, n - ?k)"
      by (simp add: body)
    then show ?thesis
      by blast
  qed
qed

text \<open>Reading the text of a number gives the value of the number.\<close>

lemma parseDecimal_Number_toString:
  "map_option num_val (parseDecimal (Number_toString x)) = Some (num_val x)"
proof (cases x)
  case (Dec m e)
  show ?thesis
  proof (cases "m = 0")
    case True
    have "parseUnsigned ''0'' = Some (natOfDigits ''0'', 0)"
      by (rule parseUnsigned_integer) (simp_all add: isDigit_zero)
    then have "parseDecimal ''0'' = Some (Dec 0 0)"
      by (simp add: parseDecimal_def natOfDigits_def digitVal_def)
    with True Dec show ?thesis
      by (simp add: Number_toString_zero num_val_power)
  next
    case False
    obtain s e' where st: "stripZeros (nat \<bar>m\<bar>) e = (s, e')"
      by (cases "stripZeros (nat \<bar>m\<bar>) e")
    let ?D = "digitsOf s"
    let ?n = "int (length ?D) + e'"
    have D: "list_all isDigit ?D" "?D \<noteq> []" "natOfDigits ?D = s"
      using digitsOf_digits [of s] by simp_all
    obtain a b where p: "parseUnsigned (decimalBody ?D ?n) = Some (a, b)"
      and v: "(of_nat a :: rat) * 10 powi b = of_nat (natOfDigits ?D) * 10 powi (?n - int (length ?D))"
      using parseUnsigned_decimalBody [OF D(1) D(2), of ?n] by blast
    have "(of_nat a :: rat) * 10 powi b = of_nat s * 10 powi e'"
      using v D(3) by simp
    also have "\<dots> = of_nat (nat \<bar>m\<bar>) * 10 powi e"
      using st by (rule stripZeros_value)
    finally have val: "(of_nat a :: rat) * 10 powi b = of_int \<bar>m\<bar> * 10 powi e"
      by simp
    have "isDigit (hd ?D)"
      using D(1) D(2) by (cases ?D) simp_all
    then have "isDigit (hd (decimalBody ?D ?n))" and body_ne: "decimalBody ?D ?n \<noteq> []"
      using decimalBody_hd [OF D(2), of ?n] isDigit_zero by auto
    then have first: "hd (decimalBody ?D ?n) \<noteq> CHR ''-''" "hd (decimalBody ?D ?n) \<noteq> CHR ''+''"
      using isDigit_plain by blast+
    show ?thesis
    proof (cases "m < 0")
      case True
      then have "Number_toString (Dec m e) = CHR ''-'' # decimalBody ?D ?n"
        using Number_toString_body [OF False st] by simp
      then have "parseDecimal (Number_toString (Dec m e)) = Some (Dec (- int a) b)"
        using p by (simp add: parseDecimal_def)
      moreover have "num_val (Dec (- int a) b) = num_val (Dec m e)"
        using val True by (simp add: num_val_power)
      ultimately show ?thesis
        using Dec by simp
    next
      case pos: False
      then have "Number_toString (Dec m e) = decimalBody ?D ?n"
        using Number_toString_body [OF False st] by simp
      then have "parseDecimal (Number_toString (Dec m e)) = Some (Dec (int a) b)"
        using p first body_ne by (simp add: parseDecimal_def)
      moreover have "num_val (Dec (int a) b) = num_val (Dec m e)"
        using val pos False by (simp add: num_val_power)
      ultimately show ?thesis
        using Dec by simp
    qed
  qed
qed

lemma reparse_printed:
  assumes "CHR ''?'' \<notin> set (base u)" and "searchParams u \<noteq> []"
    and "map_of (searchParams u) k = Some (Number_toString x)"
  shows "reparseNumber (url_toString u) k = Some (num_val x)"
  using searchParams_get_url_toString [OF assms(1) assms(2), of k] assms(3)
    parseDecimal_Number_toString [of x]
  by (simp add: reparseNumber_def)

lemma forecastUrl_fields:
  "CHR ''?'' \<notin> set (base (forecastUrl lat lon days)) \<and>
   searchParams (forecastUrl lat lon days) \<noteq> [] \<and>
   map_of (searchParams (forecastUrl lat lon days)) ''latitude'' = Some (Number_toString lat) \<and>
   map_of (searchParams (forecastUrl lat lon days)) ''longitude'' = Some (Number_toString lon) \<and>
   map_of (searchParams (forecastUrl lat lon days)) ''forecast_days'' = Some (Number_toString days)"
  by (simp add: forecastUrl_def searchParams_append_def URL_new_def)

text \<open>
  C9. Building the request URL of \<open>get_forecast\<close> and parsing its query parameters back
  gives the original values: for all numbers \<open>lat\<close>, \<open>lon\<close> and \<open>days\<close>, so for all
  validated arguments, the one URL that \<open>getForecast\<close> requests has under the names
  \<open>latitude\<close>, \<open>longitude\<close> and \<open>forecast_days\<close> the text of a number, and the number read
  from it has the value of the argument.
\<close>

theorem forecast_url_round_trip:
  "fst (getForecast E lat lon days) = [url_toString (forecastUrl lat lon days)] \<and>
   reparseNumber (url_toString (forecastUrl lat lon days)) ''latitude'' = Some (num_val lat) \<and>
   reparseNumber (url_toString (forecastUrl lat lon days)) ''longitude'' = Some (num_val lon) \<and>
   reparseNumber (url_toString (forecastUrl lat lon days)) ''forecast_days'' = Some (num_val days)"
proof -
  let ?u = "forecastUrl lat lon days"
  have "fst (getForecast E lat lon days) = [url_toString ?u]"
    by (simp add: getForecast_def request_def)
  moreover have "reparseNumber (url_toString ?u) ''latitude'' = Some (num_val lat)"
    using forecastUrl_fields [of lat lon days] by (intro reparse_printed) simp_all
  moreover have "reparseNumber (url_toString ?u) ''longitude'' = Some (num_val lon)"
    using forecastUrl_fields [of lat lon days] by (intro reparse_printed) simp_all
  moreover have "reparseNumber (url_toString ?u) ''forecast_days'' = Some (num_val days)"
    using forecastUrl_fields [of lat lon days] by (intro reparse_printed) simp_all
  ultimately show ?thesis
    by blast
qed

text \<open>
  The round trip at latitude 52.52, longitude -13.41 and 7 days, on the URL as it is
  requested, and on a URL whose numbers are printed with an exponent and with leading
  zeros: \<open>1e-7\<close>, \<open>-0.000001\<close> and 16.
\<close>

theorem forecast_url_round_trip_witness:
  "fst (getForecast (mockEnv mockForecastBody) (Dec 5252 (- 2)) (Dec (- 1341) (- 2)) (Dec 7 0)) =
     [''https://api.open-meteo.com/v1/forecast?latitude=52.52&longitude=-13.41&daily=temperature_2m_max%2Ctemperature_2m_min%2Cprecipitation_sum%2Cwind_speed_10m_max%2Cweather_code&forecast_days=7&timezone=auto''] \<and>
   reparseNumber
     ''https://api.open-meteo.com/v1/forecast?latitude=52.52&longitude=-13.41&daily=temperature_2m_max%2Ctemperature_2m_min%2Cprecipitation_sum%2Cwind_speed_10m_max%2Cweather_code&forecast_days=7&timezone=auto''
     ''latitude'' = Some (1313 / 25) \<and>
   reparseNumber
     ''https://api.open-meteo.com/v1/forecast?latitude=52.52&longitude=-13.41&daily=temperature_2m_max%2Ctemperature_2m_min%2Cprecipitation_sum%2Cwind_speed_10m_max%2Cweather_code&forecast_days=7&timezone=auto''
     ''longitude'' = Some (- 1341 / 100) \<and>
   reparseNumber
     ''https://api.open-meteo.com/v1/forecast?latitude=52.52&longitude=-13.41&daily=temperature_2m_max%2Ctemperature_2m_min%2Cprecipitation_sum%2Cwind_speed_10m_max%2Cweather_code&forecast_days=7&timezone=auto''
     ''forecast_days'' = Some 7 \<and>
   reparseNumber
     ''https://api.open-meteo.com/v1/forecast?latitude=1e-7&longitude=-0.000001&daily=temperature_2m_max%2Ctemperature_2m_min%2Cprecipitation_sum%2Cwind_speed_10m_max%2Cweather_code&forecast_days=16&timezone=auto''
     ''latitude'' = Some (1 / 10000000) \<and>
   reparseNumber
     ''https://api.open-meteo.com/v1/forecast?latitude=1e-7&longitude=-0.000001&daily=temperature_2m_max%2Ctemperature_2m_min%2Cprecipitation_sum%2Cwind_speed_10m_max%2Cweather_code&forecast_days=16&timezone=auto''
     ''longitude'' = Some (- 1 / 1000000) \<and>
   reparseNumber
     ''https://api.open-meteo.com/v1/forecast?latitude=1e-7&longitude=-0.000001&daily=temperature_2m_max%2Ctemperature_2m_min%2Cprecipitation_sum%2Cwind_speed_10m_max%2Cweather_code&forecast_days=16&timezone=auto''
     ''forecast_days'' = Some 16"
proof -
  have u: "url_toString (forecastUrl (Dec 5252 (- 2)) (Dec (- 1341) (- 2)) (Dec 7 0)) =
      ''https://api.open-meteo.com/v1/forecast?latitude=52.52&longitude=-13.41&daily=temperature_2m_max%2Ctemperature_2m_min%2Cprecipitation_sum%2Cwind_speed_10m_max%2Cweather_code&forecast_days=7&timezone=auto''"
    by (simp add: url_eval number_eval)
  have z: "replicate 5 (CHR ''0'') = ''00000''"
    by (simp add: eval_nat_numeral)
  have v: "url_toString (forecastUrl (Dec 1 (- 7)) (Dec (- 1) (- 6)) (Dec 16 0)) =
      ''https://api.open-meteo.com/v1/forecast?latitude=1e-7&longitude=-0.000001&daily=temperature_2m_max%2Ctemperature_2m_min%2Cprecipitation_sum%2Cwind_speed_10m_max%2Cweather_code&forecast_days=16&timezone=auto''"
    by (simp add: url_eval number_eval z)
  have n: "num_val (Dec 5252 (- 2)) = 1313 / 25" "num_val (Dec (- 1341) (- 2)) = - 1341 / 100"
    "num_val (Dec 7 0) = 7" "num_val (Dec 1 (- 7)) = 1 / 10000000"
    "num_val (Dec (- 1) (- 6)) = - 1 / 1000000" "num_val (Dec 16 0) = 16"
    by (simp_all add: num_val_def)
  from forecast_url_round_trip
    [where E = "mockEnv mockForecastBody" and lat = "Dec 5252 (- 2)"
       and lon = "Dec (- 1341) (- 2)" and days = "Dec 7 0"]
  have a: "fst (getForecast (mockEnv mockForecastBody) (Dec 5252 (- 2)) (Dec (- 1341) (- 2))
        (Dec 7 0)) =
      [''https://api.open-meteo.com/v1/forecast?latitude=52.52&longitude=-13.41&daily=temperature_2m_max%2Ctemperature_2m_min%2Cprecipitation_sum%2Cwind_speed_10m_max%2Cweather_code&forecast_days=7&timezone=auto'']"
    and a1: "reparseNumber
      ''https://api.open-meteo.com/v1/forecast?latitude=52.52&longitude=-13.41&daily=temperature_2m_max%2Ctemperature_2m_min%2Cprecipitation_sum%2Cwind_speed_10m_max%2Cweather_code&forecast_days=7&timezone=auto''
      ''latitude'' = Some (1313 / 25)"
    and a2: "reparseNumber
      ''https://api.open-meteo.com/v1/forecast?latitude=52.52&longitude=-13.41&daily=temperature_2m_max%2Ctemperature_2m_min%2Cprecipitation_sum%2Cwind_speed_10m_max%2Cweather_code&forecast_days=7&timezone=auto''
      ''longitude'' = Some (- 1341 / 100)"
    and a3: "reparseNumber
      ''https://api.open-meteo.com/v1/forecast?latitude=52.52&longitude=-13.41&daily=temperature_2m_max%2Ctemperature_2m_min%2Cprecipitation_sum%2Cwind_speed_10m_max%2Cweather_code&forecast_days=7&timezone=auto''
      ''forecast_days'' = Some 7"
    unfolding u n by blast+
  from forecast_url_round_trip
    [where E = "mockEnv mockForecastBody" and lat = "Dec 1 (- 7)"
       and lon = "Dec (- 1) (- 6)" and days = "Dec 16 0"]
  have b1: "reparseNumber
      ''https://api.open-meteo.com/v1/forecast?latitude=1e-7&longitude=-0.000001&daily=temperature_2m_max%2Ctemperature_2m_min%2Cprecipitation_sum%2Cwind_speed_10m_max%2Cweather_code&forecast_days=16&timezone=auto''
      ''latitude'' = Some (1 / 10000000)"
    and b2: "reparseNumber
      ''https://api.open-meteo.com/v1/forecast?latitude=1e-7&longitude=-0.000001&daily=temperature_2m_max%2Ctemperature_2m_min%2Cprecipitation_sum%2Cwind_speed_10m_max%2Cweather_code&forecast_days=16&timezone=auto''
      ''longitude'' = Some (- 1 / 1000000)"
    and b3: "reparseNumber
      ''https://api.open-meteo.com/v1/forecast?latitude=1e-7&longitude=-0.000001&daily=temperature_2m_max%2Ctemperature_2m_min%2Cprecipitation_sum%2Cwind_speed_10m_max%2Cweather_code&forecast_days=16&timezone=auto''
      ''forecast_days'' = Some 16"
    unfolding v n by blast+
  from a a1 a2 a3 b1 b2 b3 show ?thesis
    by blast
qed

section \<open>The current-weather report\<close>

text \<open>
  C10. For every upstream current-weather payload with \<open>latitude\<close>, \<open>longitude\<close> and a
  \<open>current\<close> object whose seven fields print as the given texts, the report is exactly
  the header line, one blank line, then the seven lines Time, Temperature, Relative
  Humidity, Precipitation, Wind Speed, Wind Direction, Weather Code in that order with
  no blank line among them, ending with a single newline.
\<close>

theorem formatCurrentWeather_layout:
  assumes "map_of kvs ''current'' = Some (JObj c)"
    and "toString (map_of kvs ''latitude'') = Inr lat"
    and "toString (map_of kvs ''longitude'') = Inr lon"
    and "toString (map_of c ''time'') = Inr time"
    and "toString (map_of c ''temperature_2m'') = Inr temp"
    and "toString (map_of c ''relative_humidity_2m'') = Inr hum"
    and "toString (map_of c ''precipitation'') = Inr precip"
    and "toString (map_of c ''wind_speed_10m'') = Inr wind"
    and "toString (map_of c ''wind_direction_10m'') = Inr dir"
    and "toString (map_of c ''weather_code'') = Inr code"
  shows "formatCurrentWeather (JObj kvs) =
           Inr (''Current Weather for coordinates ('' @ lat @ '', '' @ lon @ '')\<newline>'' @
                ''\<newline>'' @
                ''Time: '' @ time @ ''\<newline>'' @
                ''Temperature: '' @ temp @ degreeSign @ ''C\<newline>'' @
                ''Relative Humidity: '' @ hum @ ''%\<newline>'' @
                ''Precipitation: '' @ precip @ '' mm\<newline>'' @
                ''Wind Speed: '' @ wind @ '' km/h\<newline>'' @
                ''Wind Direction: '' @ dir @ degreeSign @ ''\<newline>'' @
                ''Weather Code: '' @ code @ ''\<newline>'')"
  using assms by (simp add: formatCurrentWeather_def fieldText_def)

theorem formatCurrentWeather_layout_witness:
  "map_of mockCurrentFields ''current'' = Some (JObj mockCurrent) \<and>
   toString (map_of mockCurrentFields ''latitude'') = Inr ''90'' \<and>
   toString (map_of mockCurrentFields ''longitude'') = Inr ''-180'' \<and>
   toString (map_of mockCurrent ''time'') = Inr ''2024-01-01T12:00'' \<and>
   toString (map_of mockCurrent ''temperature_2m'') = Inr ''-25.4'' \<and>
   toString (map_of mockCurrent ''relative_humidity_2m'') = Inr ''80'' \<and>
   toString (map_of mockCurrent ''precipitation'') = Inr ''0'' \<and>
   toString (map_of mockCurrent ''wind_speed_10m'') = Inr ''12.5'' \<and>
   toString (map_of mockCurrent ''wind_direction_10m'') = Inr ''270'' \<and>
   toString (map_of mockCurrent ''weather_code'') = Inr ''3'' \<and>
   formatCurrentWeather (JObj mockCurrentFields) =
     Inr (''Current Weather for coordinates (90, -180)\<newline>'' @
          ''\<newline>'' @
          ''Time: 2024-01-01T12:00\<newline>'' @
          ''Temperature: -25.4'' @ degreeSign @ ''C\<newline>'' @
          ''Relative Humidity: 80%\<newline>'' @
          ''Precipitation: 0 mm\<newline>'' @
          ''Wind Speed: 12.5 km/h\<newline>'' @
          ''Wind Direction: 270'' @ degreeSign @ ''\<newline>'' @
          ''Weather Code: 3\<newline>'')"
proof -
  have cur: "map_of mockCurrentFields ''current'' = Some (JObj mockCurrent)"
    by (simp add: mockCurrentFields_def)
  have lat: "toString (map_of mockCurrentFields ''latitude'') = Inr ''90''"
    and lon: "toString (map_of mockCurrentFields ''longitude'') = Inr ''-180''"
    by (simp_all add: mockCurrentFields_def toString_def number_eval)
  have f: "toString (map_of mockCurrent ''time'') = Inr ''2024-01-01T12:00''"
    "toString (map_of mockCurrent ''temperature_2m'') = Inr ''-25.4''"
    "toString (map_of mockCurrent ''relative_humidity_2m'') = Inr ''80''"
    "toString (map_of mockCurrent ''precipitation'') = Inr ''0''"
    "toString (map_of mockCurrent ''wind_speed_10m'') = Inr ''12.5''"
    "toString (map_of mockCurrent ''wind_direction_10m'') = Inr ''270''"
    "toString (map_of mockCurrent ''weather_code'') = Inr ''3''"
    by (simp_all add: mockCurrent_def toString_def number_eval)
  from formatCurrentWeather_layout [OF cur lat lon f]
  have "formatCurrentWeather (JObj mockCurrentFields) =
     Inr (''Current Weather for coordinates (90, -180)\<newline>'' @
          ''\<newline>'' @
          ''Time: 2024-01-01T12:00\<newline>'' @
          ''Temperature: -25.4'' @ degreeSign @ ''C\<newline>'' @
          ''Relative Humidity: 80%\<newline>'' @
          ''Precipitation: 0 mm\<newline>'' @
          ''Wind Speed: 12.5 km/h\<newline>'' @
          ''Wind Direction: 270'' @ degreeSign @ ''\<newline>'' @
          ''Weather Code: 3\<newline>'')"
    by simp
  with cur lat lon f show ?thesis
    by blast
qed

section \<open>Payloads with missing fields\<close>

lemma toStringJ_error:
  "toStringJ v = Inl e \<Longrightarrow> e = TypeError"
  "joinJ xs = Inl e \<Longrightarrow> e = TypeError"
  by (induction v and xs arbitrary: e and e rule: toStringJ_joinJ.induct)
    (auto split: if_splits sum.splits)

lemma toString_cases:
  obtains s where "toString v = Inr s" | "toString v = Inl TypeError"
proof (cases "toString v")
  case (Inl e)
  then have "e = TypeError"
    by (cases v) (auto simp: toString_def dest: toStringJ_error(1))
  with Inl that(2) show ?thesis
    by simp
next
  case (Inr s)
  with that(1) show ?thesis
    by simp
qed

lemma forecastLoop_no_daily: "forecastLoop stn None i result = Inl TypeError"
  by (simp add: forecastLoop.simps [of stn None i result] loopBound_def)

lemma formatForecast_no_daily:
  assumes "map_of kvs ''daily'' = None"
  shows "formatForecast stn (JObj kvs) = Inl TypeError"
proof -
  show ?thesis
  proof (cases "map_of kvs ''latitude''" rule: toString_cases [case_names ok err])
    case (ok lat)
    show ?thesis
    proof (cases "map_of kvs ''longitude''" rule: toString_cases [case_names ok err])
      case (ok lon)
      with \<open>toString (map_of kvs ''latitude'') = Inr lat\<close> assms show ?thesis
        by (simp add: formatForecast_def forecastLoop_no_daily)
    next
      case err
      with \<open>toString (map_of kvs ''latitude'') = Inr lat\<close> assms show ?thesis
        by (simp add: formatForecast_def)
    qed
  next
    case err
    with assms show ?thesis
      by (simp add: formatForecast_def)
  qed
qed

lemma formatCurrentWeather_no_current:
  assumes "map_of kvs ''current'' = None"
  shows "formatCurrentWeather (JObj kvs) = Inl TypeError"
proof (cases "map_of kvs ''latitude''" rule: toString_cases [case_names ok err])
  case (ok lat)
  show ?thesis
  proof (cases "map_of kvs ''longitude''" rule: toString_cases [case_names ok err])
    case (ok lon)
    with \<open>toString (map_of kvs ''latitude'') = Inr lat\<close> assms show ?thesis
      by (simp add: formatCurrentWeather_def fieldText_def)
  next
    case err
    with \<open>toString (map_of kvs ''latitude'') = Inr lat\<close> assms show ?thesis
      by (simp add: formatCurrentWeather_def)
  qed
next
  case err
  with assms show ?thesis
    by (simp add: formatCurrentWeather_def)
qed

text \<open>
  C4 (as amended). The code has no MalformedUpstreamResponse error and no check of the
  payload. A payload object without \<open>daily\<close> (forecast) or without \<open>current\<close> (current
  weather) makes the formatter fail with the TypeError of the runtime, and no text is
  produced. A daily array shorter than \<open>daily.time\<close> does not make the formatter fail:
  with the five arrays present and printable, whatever their lengths, the formatter
  returns a text, in which every element beyond the end of its array is printed as
  \<open>undefined\<close>.
\<close>

theorem missing_fields_behaviour:
  "(map_of kvs ''daily'' = None \<longrightarrow> formatForecast stn (JObj kvs) = Inl TypeError) \<and>
   (map_of kvs ''current'' = None \<longrightarrow> formatCurrentWeather (JObj kvs) = Inl TypeError) \<and>
   (map_of kvs ''daily'' = Some (JObj d) \<and>
    \<not> isl (toString (map_of kvs ''latitude'')) \<and>
    \<not> isl (toString (map_of kvs ''longitude'')) \<and>
    map_of d ''time'' = Some (JArr ts) \<and>
    map_of d ''temperature_2m_max'' = Some (JArr tmax) \<and>
    map_of d ''temperature_2m_min'' = Some (JArr tmin) \<and>
    map_of d ''precipitation_sum'' = Some (JArr ps) \<and>
    map_of d ''wind_speed_10m_max'' = Some (JArr ws) \<and>
    map_of d ''weather_code'' = Some (JArr wc) \<and>
    (\<forall>v\<in>set (ts @ tmax @ tmin @ ps @ ws @ wc). printable v) \<longrightarrow>
      \<not> isl (formatForecast stn (JObj kvs))) \<and>
   (map_of d k = Some (JArr xs) \<and> length xs \<le> i \<longrightarrow>
      elementText (Some (JObj d)) k i = Inr ''undefined'')"
proof (intro conjI impI)
  assume "map_of kvs ''daily'' = None"
  then show "formatForecast stn (JObj kvs) = Inl TypeError"
    by (rule formatForecast_no_daily)
next
  assume "map_of kvs ''current'' = None"
  then show "formatCurrentWeather (JObj kvs) = Inl TypeError"
    by (rule formatCurrentWeather_no_current)
next
  assume h: "map_of kvs ''daily'' = Some (JObj d) \<and>
    \<not> isl (toString (map_of kvs ''latitude'')) \<and>
    \<not> isl (toString (map_of kvs ''longitude'')) \<and>
    map_of d ''time'' = Some (JArr ts) \<and>
    map_of d ''temperature_2m_max'' = Some (JArr tmax) \<and>
    map_of d ''temperature_2m_min'' = Some (JArr tmin) \<and>
    map_of d ''precipitation_sum'' = Some (JArr ps) \<and>
    map_of d ''wind_speed_10m_max'' = Some (JArr ws) \<and>
    map_of d ''weather_code'' = Some (JArr wc) \<and>
    (\<forall>v\<in>set (ts @ tmax @ tmin @ ps @ ws @ wc). printable v)"
  then obtain lat lon where "toString (map_of kvs ''latitude'') = Inr lat"
    and "toString (map_of kvs ''longitude'') = Inr lon"
    by (cases "toString (map_of kvs ''latitude'')"; cases "toString (map_of kvs ''longitude'')")
      simp_all
  with h have "formatForecast stn (JObj kvs) =
      Inr (''Weather Forecast for coordinates ('' @ lat @ '', '' @ lon @ '')\<newline>\<newline>'' @
           concat (map (specDayBlock ts tmax tmin ps ws wc) [0..<length ts]))"
    using formatForecast_arrays [of kvs d lat lon ts tmax tmin ps ws wc stn] by blast
  then show "\<not> isl (formatForecast stn (JObj kvs))"
    by simp
next
  assume "map_of d k = Some (JArr xs) \<and> length xs \<le> i"
  then show "elementText (Some (JObj d)) k i = Inr ''undefined''"
    by (simp add: elementText_beyond)
qed

theorem missing_fields_behaviour_witness:
  "map_of bareFields ''daily'' = None \<and>
   formatForecast (\<lambda>s. None) (JObj bareFields) = Inl TypeError \<and>
   map_of bareFields ''current'' = None \<and>
   formatCurrentWeather (JObj bareFields) = Inl TypeError \<and>
   map_of shortForecastFields ''daily'' = Some (JObj shortDaily) \<and>
   map_of shortDaily ''time'' = Some (JArr [JStr ''2024-01-01'']) \<and>
   map_of shortDaily ''temperature_2m_max'' = Some (JArr []) \<and>
   \<not> isl (formatForecast (\<lambda>s. None) (JObj shortForecastFields)) \<and>
   elementText (Some (JObj shortDaily)) ''temperature_2m_max'' 0 = Inr ''undefined''"
proof -
  note t = missing_fields_behaviour
    [where stn = "\<lambda>s. None" and d = shortDaily and ts = "[JStr ''2024-01-01'']"
       and tmax = "[]" and tmin = "[]" and ps = "[]" and ws = "[]" and wc = "[]"
       and k = "''temperature_2m_max''" and xs = "[]" and i = 0]
  have b: "map_of bareFields ''daily'' = None" "map_of bareFields ''current'' = None"
    by (simp_all add: bareFields_def)
  have s: "map_of shortForecastFields ''daily'' = Some (JObj shortDaily)"
    "\<not> isl (toString (map_of shortForecastFields ''latitude''))"
    "\<not> isl (toString (map_of shortForecastFields ''longitude''))"
    by (simp_all add: shortForecastFields_def toString_def)
  have d: "map_of shortDaily ''time'' = Some (JArr [JStr ''2024-01-01''])"
    "map_of shortDaily ''temperature_2m_max'' = Some (JArr [])"
    "map_of shortDaily ''temperature_2m_min'' = Some (JArr [])"
    "map_of shortDaily ''precipitation_sum'' = Some (JArr [])"
    "map_of shortDaily ''wind_speed_10m_max'' = Some (JArr [])"
    "map_of shortDaily ''weather_code'' = Some (JArr [])"
    "\<forall>v\<in>set ([JStr ''2024-01-01''] @ [] @ [] @ [] @ [] @ []). printable v"
    by (simp_all add: shortDaily_def printable_def)
  from t [where kvs = bareFields] b
  have r1: "formatForecast (\<lambda>s. None) (JObj bareFields) = Inl TypeError"
    and r2: "formatCurrentWeather (JObj bareFields) = Inl TypeError"
    by blast+
  from t [where kvs = shortForecastFields] s d
  have r3: "\<not> isl (formatForecast (\<lambda>s. None) (JObj shortForecastFields))"
    by blast
  from t [where kvs = shortForecastFields] d(2)
  have r4: "elementText (Some (JObj shortDaily)) ''temperature_2m_max'' 0 = Inr ''undefined''"
    by simp
  from b r1 r2 s(1) d(1,2) r3 r4 show ?thesis
    by blast
qed

text \<open>
  The claim as written fails: for a body whose value arrays are shorter than
  \<open>daily.time\<close> the call succeeds, and the text has placeholders for the missing values.
\<close>

theorem short_daily_arrays_counterexample:
  "snd (callTool (mockEnv (JObj shortForecastFields))
          (toolRequest ''get_forecast'' (coordinateArgs (Dec 5252 (- 2)) (Dec 1341 (- 2))))) =
     Inr [TextContent
       (''Weather Forecast for coordinates (52.52, 13.41)\<newline>\<newline>'' @
        ''Date: 2024-01-01\<newline>'' @
        ''  Temperature: undefined'' @ degreeSign @ ''C max, undefined'' @ degreeSign @ ''C min\<newline>'' @
        ''  Precipitation: undefined mm\<newline>'' @
        ''  Wind Speed: undefined km/h max\<newline>'' @
        ''  Weather Code: undefined\<newline>\<newline>'')]"
proof -
  have "formatForecast (\<lambda>s. None) (JObj shortForecastFields) =
      Inr (''Weather Forecast for coordinates (52.52, 13.41)\<newline>\<newline>'' @
        ''Date: 2024-01-01\<newline>'' @
        ''  Temperature: undefined'' @ degreeSign @ ''C max, undefined'' @ degreeSign @ ''C min\<newline>'' @
        ''  Precipitation: undefined mm\<newline>'' @
        ''  Wind Speed: undefined km/h max\<newline>'' @
        ''  Weather Code: undefined\<newline>\<newline>'')"
    by (simp add: formatForecast_def shortForecastFields_def shortDaily_def forecastLoop.simps
        format_eval number_eval)
  then show ?thesis
    by (simp add: callTool_def toolRequest_def coordinateArgs_def GetForecastArgsSchema_def
        zNumber_def zOptionalDefault_def num_val_def reply_def getForecast_def request_def
        mockEnv_def)
qed

end
